theory Spec2Isabelle
  imports Main "HOL-Library.Multiset"
begin

section \<open>Python values\<close>

text \<open>
  The exporter works on decoded JSON, so every value it touches is one of Python's
  \<open>None\<close>, \<open>bool\<close>, \<open>int\<close>, \<open>str\<close>, \<open>list\<close> or \<open>dict\<close> (with \<open>str\<close> keys).
  A dict is kept as an association list in insertion order; its keys are distinct, as
  they are in Python, and a lookup takes the entry for the key. Non-integer JSON numbers
  are left out of the model. A character is a code point below 256.

  The exceptions are the ones the program's own operations can raise on such values.
\<close>

datatype py_error = KeyError | IndexError | AttributeError | TypeError | ValueError

datatype json =
    JNull
  | JBool bool
  | JInt int
  | JStr string
  | JList "json list"
  | JDict "(string \<times> json) list"

text \<open>Truth value of an object, as \<open>if x:\<close> and \<open>filter(None, ...)\<close> read it.\<close>

fun truthy :: "json \<Rightarrow> bool" where
  "truthy JNull = False"
| "truthy (JBool b) = b"
| "truthy (JInt n) = (n \<noteq> 0)"
| "truthy (JStr s) = (s \<noteq> [])"
| "truthy (JList xs) = (xs \<noteq> [])"
| "truthy (JDict kvs) = (kvs \<noteq> [])"

text \<open>Sequencing of computations that may raise: the first exception wins.\<close>

definition bind_err :: "py_error + 'a \<Rightarrow> ('a \<Rightarrow> py_error + 'b) \<Rightarrow> py_error + 'b" where
  "bind_err m f = (case m of Inl e \<Rightarrow> Inl e | Inr x \<Rightarrow> f x)"

text \<open>\<open>try: ... except (KeyError, IndexError): ...\<close> and \<open>try: ... except KeyError: ...\<close>\<close>

definition except_key_index :: "py_error + 'a \<Rightarrow> 'a \<Rightarrow> py_error + 'a" where
  "except_key_index m fallback =
     (case m of
        Inl e \<Rightarrow> (if e = KeyError \<or> e = IndexError then Inr fallback else Inl e)
      | Inr x \<Rightarrow> Inr x)"

definition except_key :: "py_error + 'a \<Rightarrow> 'a \<Rightarrow> py_error + 'a" where
  "except_key m fallback =
     (case m of
        Inl e \<Rightarrow> (if e = KeyError then Inr fallback else Inl e)
      | Inr x \<Rightarrow> Inr x)"

subsection \<open>Strings\<close>

abbreviation nl :: char where
  "nl \<equiv> CHR 0x0A"

text \<open>\<open>sep.join(parts)\<close> on a list of strings.\<close>

fun str_join :: "string \<Rightarrow> string list \<Rightarrow> string" where
  "str_join sep [] = []"
| "str_join sep [x] = x"
| "str_join sep (x # y # ys) = x @ sep @ str_join sep (y # ys)"

text \<open>\<open>s.split(sep)\<close> for a one-character separator: never empty.\<close>

fun py_split :: "char \<Rightarrow> string \<Rightarrow> string list" where
  "py_split sep [] = [[]]"
| "py_split sep (c # cs) =
     (if c = sep then [] # py_split sep cs
      else (case py_split sep cs of
              [] \<Rightarrow> [[c]]
            | w # ws \<Rightarrow> (c # w) # ws))"

text \<open>\<open>sub in s\<close>\<close>

fun is_substring :: "string \<Rightarrow> string \<Rightarrow> bool" where
  "is_substring sub [] = (sub = [])"
| "is_substring sub (c # cs) = (take (length sub) (c # cs) = sub \<or> is_substring sub cs)"

text \<open>\<open>str.isspace\<close> on one code point below 256, and \<open>s.strip()\<close>.\<close>

definition py_isspace :: "char \<Rightarrow> bool" where
  "py_isspace c =
     ((of_char c :: nat) \<in> {9, 10, 11, 12, 13, 28, 29, 30, 31, 32, 133, 160})"

definition py_strip :: "string \<Rightarrow> string" where
  "py_strip s = rev (dropWhile py_isspace (rev (dropWhile py_isspace s)))"

text \<open>Decimal rendering of an \<open>int\<close>.\<close>

fun str_nat :: "nat \<Rightarrow> string" where
  "str_nat n =
     (if n < 10 then [char_of (48 + n)]
      else str_nat (n div 10) @ [char_of (48 + n mod 10)])"

definition str_int :: "int \<Rightarrow> string" where
  "str_int i = (if i < 0 then CHR ''-'' # str_nat (nat (- i)) else str_nat (nat i))"

text \<open>
  \<open>repr\<close> of a \<open>str\<close>: single quotes unless the text has a single quote and no
  double quote; backslash, the chosen quote, newline, carriage return and tab are
  escaped, every other non-printable code point is written \<open>\xhh\<close>.
\<close>

definition hex_digit :: "nat \<Rightarrow> char" where
  "hex_digit n = (if n < 10 then char_of (48 + n) else char_of (87 + n))"

definition repr_quote :: "string \<Rightarrow> char" where
  "repr_quote s = (if CHR 0x27 \<in> set s \<and> CHR 0x22 \<notin> set s then CHR 0x22 else CHR 0x27)"

definition repr_char :: "char \<Rightarrow> char \<Rightarrow> string" where
  "repr_char q c =
     (let n = (of_char c :: nat) in
      if c = CHR 0x5C then [CHR 0x5C, CHR 0x5C]
      else if c = q then [CHR 0x5C, q]
      else if c = CHR 0x0A then [CHR 0x5C, CHR ''n'']
      else if c = CHR 0x0D then [CHR 0x5C, CHR ''r'']
      else if c = CHR 0x09 then [CHR 0x5C, CHR ''t'']
      else if n < 32 \<or> n = 127 \<or> (128 \<le> n \<and> n \<le> 160) \<or> n = 173
        then [CHR 0x5C, CHR ''x'', hex_digit (n div 16), hex_digit (n mod 16)]
      else [c])"

definition repr_str :: "string \<Rightarrow> string" where
  "repr_str s = (let q = repr_quote s in q # concat (map (repr_char q) s) @ [q])"

fun py_repr :: "json \<Rightarrow> string" where
  "py_repr JNull = ''None''"
| "py_repr (JBool b) = (if b then ''True'' else ''False'')"
| "py_repr (JInt n) = str_int n"
| "py_repr (JStr s) = repr_str s"
| "py_repr (JList xs) = ''['' @ str_join '', '' (map py_repr xs) @ '']''"
| "py_repr (JDict kvs) =
     ''{'' @ str_join '', '' (map (\<lambda>kv. repr_str (fst kv) @ '': '' @ py_repr (snd kv)) kvs) @ ''}''"

text \<open>\<open>str(x)\<close>, which is also what an f-string field \<open>{x}\<close> renders.\<close>

fun py_str :: "json \<Rightarrow> string" where
  "py_str (JStr s) = s"
| "py_str v = py_repr v"

subsection \<open>Operations on objects\<close>

text \<open>\<open>obj.get(key, default)\<close>: defined on a dict only.\<close>

fun dict_get :: "json \<Rightarrow> string \<Rightarrow> json \<Rightarrow> py_error + json" where
  "dict_get (JDict kvs) k d = Inr (case map_of kvs k of None \<Rightarrow> d | Some v \<Rightarrow> v)"
| "dict_get _ k d = Inl AttributeError"

text \<open>\<open>obj[key]\<close> for a \<open>str\<close> key.\<close>

fun getitem_key :: "json \<Rightarrow> string \<Rightarrow> py_error + json" where
  "getitem_key (JDict kvs) k = (case map_of kvs k of None \<Rightarrow> Inl KeyError | Some v \<Rightarrow> Inr v)"
| "getitem_key _ k = Inl TypeError"

text \<open>\<open>obj[0]\<close>: a dict with \<open>str\<close> keys has no key \<open>0\<close>.\<close>

fun getitem_0 :: "json \<Rightarrow> py_error + json" where
  "getitem_0 (JList []) = Inl IndexError"
| "getitem_0 (JList (x # xs)) = Inr x"
| "getitem_0 (JStr []) = Inl IndexError"
| "getitem_0 (JStr (c # cs)) = Inr (JStr [c])"
| "getitem_0 (JDict kvs) = Inl KeyError"
| "getitem_0 _ = Inl TypeError"

text \<open>\<open>for x in obj\<close>: the elements of a list, the characters of a str, the keys of a dict.\<close>

fun py_iter :: "json \<Rightarrow> py_error + json list" where
  "py_iter (JList xs) = Inr xs"
| "py_iter (JStr s) = Inr (map (\<lambda>c. JStr [c]) s)"
| "py_iter (JDict kvs) = Inr (map (\<lambda>kv. JStr (fst kv)) kvs)"
| "py_iter _ = Inl TypeError"

text \<open>The items of \<open>sep.join(obj)\<close> must all be \<open>str\<close>.\<close>

fun all_str :: "json list \<Rightarrow> py_error + string list" where
  "all_str [] = Inr []"
| "all_str (JStr s # rest) = bind_err (all_str rest) (\<lambda>ss. Inr (s # ss))"
| "all_str (_ # rest) = Inl TypeError"

definition join_obj :: "string \<Rightarrow> json \<Rightarrow> py_error + string" where
  "join_obj sep obj =
     bind_err (py_iter obj) (\<lambda>items.
     bind_err (all_str items) (\<lambda>parts. Inr (str_join sep parts)))"

text \<open>\<open>name.translate({ord('/'): '', ord('\\'): ''})\<close>\<close>

fun translate_separators :: "json \<Rightarrow> py_error + string" where
  "translate_separators (JStr s) = Inr (filter (\<lambda>c. c \<noteq> CHR ''/'' \<and> c \<noteq> CHR 0x5C) s)"
| "translate_separators _ = Inl AttributeError"

text \<open>\<open>link.split('/')[-1]\<close>\<close>

fun split_last :: "json \<Rightarrow> py_error + string" where
  "split_last (JStr s) = Inr (last (py_split CHR ''/'' s))"
| "split_last _ = Inl AttributeError"

text \<open>\<open>re.search(r"/v1/contacts/(\d+)", burl)\<close>, giving \<open>group(1)\<close> of the leftmost match.\<close>

definition is_digit :: "char \<Rightarrow> bool" where
  "is_digit c = (48 \<le> (of_char c :: nat) \<and> (of_char c :: nat) \<le> 57)"

fun search_contact_id :: "string \<Rightarrow> string option" where
  "search_contact_id [] = None"
| "search_contact_id (c # cs) =
     (let rest = drop 13 (c # cs) in
      if take 13 (c # cs) = ''/v1/contacts/'' \<and> takeWhile is_digit rest \<noteq> []
      then Some (takeWhile is_digit rest)
      else search_contact_id cs)"

fun re_search :: "json \<Rightarrow> py_error + string option" where
  "re_search (JStr s) = Inr (search_contact_id s)"
| "re_search _ = Inl TypeError"

section \<open>The API client\<close>

text \<open>
  The methods of \<open>DayliteAPI\<close> keep their names, without the leading underscore of the
  private ones (\<open>_make_request\<close> is \<open>make_request\<close>, \<open>_process_contact\<close> is
  \<open>process_contact\<close>, and so on).

  The HTTP layer is a parameter: for each URL either the decoded JSON body of a
  successful response, or \<open>None\<close> when \<open>session.get\<close>, \<open>raise_for_status\<close> or
  \<open>response.json\<close> raises a \<open>RequestException\<close>.
\<close>

type_synonym http = "string \<Rightarrow> json option"

record DayliteAPI =
  token :: string
  base_url :: string
  max_workers :: int
  extra_field_names :: "(string \<times> string) list"

definition DayliteAPI_init :: "string \<Rightarrow> int \<Rightarrow> DayliteAPI" where
  "DayliteAPI_init tok workers =
     \<lparr> token = tok,
       base_url = ''https://api.marketcircle.net'',
       max_workers = workers,
       extra_field_names =
         [(''com.marketcircle.daylite/extra1'', ''Model #'' @ [CHR 0x27] @ ''s''),
          (''com.marketcircle.daylite/extra2'', []),
          (''com.marketcircle.daylite/extra3'', ''DCA/Distrib''),
          (''com.marketcircle.daylite/extra4'', ''Client Level''),
          (''com.marketcircle.daylite/extra5'', ''Meeting Freq''),
          (''com.marketcircle.daylite/extra6'', ''Fee Rate''),
          (''com.marketcircle.daylite/extra7'', ''Spouse/Kids''),
          (''com.marketcircle.daylite/extra8'', ''Referred By''),
          (''com.marketcircle.daylite/extra9'', ''Expected Rev''),
          (''com.marketcircle.daylite/extra10'', ''His FGA Risk''),
          (''com.marketcircle.daylite/extra11'', ''Her FGA Risk'')] \<rparr>"

text \<open>
  \<open>_make_request\<close>: the decoded body, or Python's \<open>None\<close> after a caught
  \<open>RequestException\<close>. A body that is JSON \<open>null\<close> decodes to the same \<open>None\<close>.
  (The log line it writes on failure is not part of the model.)
\<close>

definition make_request :: "http \<Rightarrow> string \<Rightarrow> json" where
  "make_request net url = (case net url of None \<Rightarrow> JNull | Some body \<Rightarrow> body)"

subsection \<open>Listing the contacts\<close>

fun extract_loop :: "json list \<Rightarrow> string list \<Rightarrow> py_error + string list" where
  "extract_loop [] ids = Inr ids"
| "extract_loop (contact # rest) ids =
     bind_err (dict_get contact ''self'' (JStr [])) (\<lambda>burl.
     bind_err (re_search burl) (\<lambda>m.
       extract_loop rest (case m of None \<Rightarrow> ids | Some g \<Rightarrow> ids @ [g])))"

definition extract_ids :: "DayliteAPI \<Rightarrow> http \<Rightarrow> py_error + string list" where
  "extract_ids api net =
     (let response = make_request net (base_url api @ ''/v1/contacts'') in
      if \<not> truthy response then Inr []
      else bind_err (py_iter response) (\<lambda>contacts. extract_loop contacts []))"

subsection \<open>Thread pools\<close>

text \<open>
  A pool runs every submitted task; \<open>as_completed\<close> then yields the futures in the order
  in which they finished, which is some permutation of the submitted ones. The
  permutation is a parameter: \<open>order n\<close> lists the positions \<open>0..<n\<close> of \<open>n\<close> futures in
  completion order. A future holds the value its task returned or the exception it
  raised, and \<open>future.result()\<close> returns the one or re-raises the other.
\<close>

definition valid_order :: "(nat \<Rightarrow> nat list) \<Rightarrow> bool" where
  "valid_order order = (\<forall>n. mset (order n) = mset [0..<n])"

definition as_completed :: "(nat \<Rightarrow> nat list) \<Rightarrow> 'a list \<Rightarrow> 'a list" where
  "as_completed order futures = map (\<lambda>i. futures ! i) (order (length futures))"

text \<open>
  The loop \<open>for future in as_completed(...): if future.result(): data.append(future.result())\<close>
  over futures of tasks that return a \<open>str\<close> or \<open>None\<close>.
\<close>

fun collect_results :: "(py_error + string option) list \<Rightarrow> py_error + string list" where
  "collect_results [] = Inr []"
| "collect_results (Inl e # rest) = Inl e"
| "collect_results (Inr r # rest) =
     bind_err (collect_results rest) (\<lambda>acc.
       Inr (case r of
              None \<Rightarrow> acc
            | Some s \<Rightarrow> (if s \<noteq> [] then s # acc else acc)))"

subsection \<open>Forms\<close>

fun form_value_lines :: "json list \<Rightarrow> py_error + string list" where
  "form_value_lines [] = Inr []"
| "form_value_lines (v # rest) =
     bind_err (dict_get v ''name'' JNull) (\<lambda>name.
     bind_err (dict_get v ''value'' JNull) (\<lambda>value_str.
     bind_err (form_value_lines rest) (\<lambda>more.
       Inr (if value_str \<noteq> JNull \<and> CHR ''+'' \<notin> set (py_str value_str)
            then ('' - '' @ py_str name @ '': '' @ py_str value_str) # more
            else more))))"

text \<open>\<open>_process_single_form\<close>: a \<open>str\<close>, or \<open>None\<close> where the function falls off its end.\<close>

definition process_single_form :: "DayliteAPI \<Rightarrow> http \<Rightarrow> string \<Rightarrow> py_error + string option" where
  "process_single_form api net form_id =
     (let data = make_request net (base_url api @ ''/v1/forms/'' @ form_id) in
      if \<not> truthy data then Inr (Some [])
      else
        bind_err (dict_get data ''name'' (JStr ''Unknown Form Name'')) (\<lambda>form_name.
        bind_err (dict_get data ''values'' (JList [])) (\<lambda>vals.
          if \<not> is_substring ''Geo Coordinates'' (py_str form_name) then
            bind_err (py_iter vals) (\<lambda>vs.
            bind_err (form_value_lines vs) (\<lambda>lines.
              Inr (Some (str_join [nl]
                     ((nl # ''Form Name: '' @ py_str form_name) # [nl] # lines)))))
          else Inr None)))"

text \<open>\<open>ThreadPoolExecutor(max_workers=n)\<close> raises \<open>ValueError\<close> unless \<open>n > 0\<close>.\<close>

definition process_forms ::
  "DayliteAPI \<Rightarrow> http \<Rightarrow> (nat \<Rightarrow> nat list) \<Rightarrow> string list \<Rightarrow> py_error + string" where
  "process_forms api net order form_ids =
     (if min (int (length form_ids)) (max_workers api) \<le> 0 then Inl ValueError
      else
        bind_err (collect_results
                    (as_completed order (map (process_single_form api net) form_ids)))
          (\<lambda>forms_data. Inr (str_join [nl] forms_data)))"

subsection \<open>Notes\<close>

text \<open>\<open>_process_single_note\<close> always returns a \<open>str\<close>.\<close>

definition process_single_note :: "DayliteAPI \<Rightarrow> http \<Rightarrow> string \<Rightarrow> py_error + string option" where
  "process_single_note api net note_id =
     (let data = make_request net (base_url api @ ''/v1/notes/'' @ note_id) in
      if \<not> truthy data then Inr (Some [])
      else
        bind_err (dict_get data ''title'' (JStr ''No title found'')) (\<lambda>title.
        bind_err (dict_get data ''details'' (JStr ''No content found'')) (\<lambda>content.
          Inr (Some (nl # py_str title @ nl # py_str content)))))"

definition process_notes ::
  "DayliteAPI \<Rightarrow> http \<Rightarrow> (nat \<Rightarrow> nat list) \<Rightarrow> string list \<Rightarrow> py_error + string" where
  "process_notes api net order note_ids =
     (if min (int (length note_ids)) (max_workers api) \<le> 0 then Inl ValueError
      else
        bind_err (collect_results
                    (as_completed order (map (process_single_note api net) note_ids)))
          (\<lambda>notes_data. Inr (str_join [nl] notes_data)))"

section \<open>One contact\<close>

text \<open>
  The completion orders of a run: of the contact tasks of the outer pool, and, for each
  contact id, of the form tasks and of the note tasks of its two inner pools.
\<close>

record schedule =
  contacts_order :: "nat \<Rightarrow> nat list"
  forms_order :: "string \<Rightarrow> nat \<Rightarrow> nat list"
  notes_order :: "string \<Rightarrow> nat \<Rightarrow> nat list"

definition valid_schedule :: "schedule \<Rightarrow> bool" where
  "valid_schedule s =
     (valid_order (contacts_order s)
      \<and> (\<forall>c. valid_order (forms_order s c))
      \<and> (\<forall>c. valid_order (notes_order s c)))"

text \<open>The name, with the path separators removed, and the file name made from it.\<close>

definition contact_name :: "string \<Rightarrow> json \<Rightarrow> py_error + string" where
  "contact_name contact_id data =
     bind_err (dict_get data ''full_name'' (JStr (''MissingName'' @ contact_id)))
       translate_separators"

definition file_name :: "string \<Rightarrow> string" where
  "file_name name = py_strip (take 20 name) @ ''.txt''"

text \<open>The first five entries of \<open>contact_info\<close>.\<close>

definition header_entries :: "json \<Rightarrow> string \<Rightarrow> py_error + json list" where
  "header_entries data name =
     bind_err (dict_get data ''details'' (JStr [])) (\<lambda>details.
     bind_err (dict_get data ''keywords'' (JStr [])) (\<lambda>keywords.
     bind_err (join_obj '' '' keywords) (\<lambda>joined.
     bind_err (dict_get data ''birthday'' (JStr [])) (\<lambda>birthday.
     bind_err (dict_get data ''anniversary'' (JStr [])) (\<lambda>anniversary.
       Inr [JStr name,
            details,
            JStr (''Keywords: '' @ joined),
            JStr (''Birthday: '' @ py_str birthday),
            JStr (''Anniversary: '' @ py_str anniversary)])))))"

definition address_entry :: "json \<Rightarrow> py_error + string" where
  "address_entry data =
     except_key_index
       (bind_err (getitem_key data ''addresses'') (\<lambda>addresses.
        bind_err (getitem_0 addresses) (\<lambda>address.
        bind_err (getitem_key address ''city'') (\<lambda>city.
        bind_err (getitem_key address ''state'') (\<lambda>state.
          Inr (py_str city @ '', '' @ py_str state))))))
       ''No location found''"

definition company_entry :: "DayliteAPI \<Rightarrow> http \<Rightarrow> json \<Rightarrow> py_error + string" where
  "company_entry api net data =
     except_key_index
       (bind_err (getitem_key data ''companies'') (\<lambda>companies.
        bind_err (getitem_0 companies) (\<lambda>company.
        bind_err (getitem_key company ''company'') (\<lambda>link.
          let company_data = make_request net (base_url api @ py_str link) in
          bind_err (if truthy company_data then getitem_key company_data ''name''
                    else Inr (JStr ''Unknown Company'')) (\<lambda>company_name.
          bind_err (getitem_key company ''role'') (\<lambda>role.
            Inr (''Job: '' @ py_str role @ '' at '' @ py_str company_name)))))))
       ''No job information found''"

text \<open>The loop over \<open>extra_fields.items()\<close>.\<close>

fun extra_field_lines :: "DayliteAPI \<Rightarrow> (string \<times> json) list \<Rightarrow> py_error + string list" where
  "extra_field_lines api [] = Inr []"
| "extra_field_lines api ((key, field) # rest) =
     bind_err (dict_get field ''value'' JNull) (\<lambda>v.
       if truthy v then
         bind_err (case map_of (extra_field_names api) key of
                     None \<Rightarrow> dict_get field ''display_name'' (JStr key)
                   | Some custom \<Rightarrow>
                       (if custom \<noteq> [] then Inr (JStr custom)
                        else dict_get field ''display_name'' (JStr key))) (\<lambda>display_name.
         bind_err (getitem_key field ''value'') (\<lambda>shown.
         bind_err (extra_field_lines api rest) (\<lambda>more.
           Inr (('' - '' @ py_str display_name @ '': '' @ py_str shown) # more))))
       else extra_field_lines api rest)"

fun dict_items :: "json \<Rightarrow> py_error + (string \<times> json) list" where
  "dict_items (JDict kvs) = Inr kvs"
| "dict_items _ = Inl AttributeError"

definition extra_entries :: "DayliteAPI \<Rightarrow> json \<Rightarrow> py_error + string list" where
  "extra_entries api data =
     bind_err (dict_get data ''extra_fields'' (JDict [])) (\<lambda>extra_fields.
       if truthy extra_fields then
         bind_err (dict_items extra_fields) (\<lambda>items.
         bind_err (extra_field_lines api items) (\<lambda>lines.
           Inr ((nl # ''Extra Fields:'') # lines)))
       else Inr [])"

text \<open>\<open>[x[key].split('/')[-1] for x in xs]\<close>\<close>

fun link_ids :: "string \<Rightarrow> json list \<Rightarrow> py_error + string list" where
  "link_ids key [] = Inr []"
| "link_ids key (x # xs) =
     bind_err (getitem_key x key) (\<lambda>link.
     bind_err (split_last link) (\<lambda>i.
     bind_err (link_ids key xs) (\<lambda>more. Inr (i # more))))"

definition forms_entry ::
  "DayliteAPI \<Rightarrow> http \<Rightarrow> (nat \<Rightarrow> nat list) \<Rightarrow> json \<Rightarrow> py_error + string" where
  "forms_entry api net order data =
     except_key
       (bind_err (getitem_key data ''forms'') (\<lambda>forms.
        bind_err (py_iter forms) (\<lambda>fs.
        bind_err (link_ids ''form'' fs) (\<lambda>form_ids.
          process_forms api net order form_ids))))
       ''No forms found''"

definition notes_entry ::
  "DayliteAPI \<Rightarrow> http \<Rightarrow> (nat \<Rightarrow> nat list) \<Rightarrow> json \<Rightarrow> py_error + string" where
  "notes_entry api net order data =
     except_key
       (bind_err (getitem_key data ''notes'') (\<lambda>notes.
        bind_err (py_iter notes) (\<lambda>ns.
        bind_err (link_ids ''note'' ns) (\<lambda>note_ids.
          process_notes api net order note_ids))))
       ''No notes found''"

text \<open>The list \<open>contact_info\<close> as it stands before the file is written.\<close>

definition contact_info ::
  "DayliteAPI \<Rightarrow> http \<Rightarrow> schedule \<Rightarrow> string \<Rightarrow> json \<Rightarrow> string \<Rightarrow> py_error + json list" where
  "contact_info api net sched contact_id data name =
     bind_err (header_entries data name) (\<lambda>header.
     bind_err (address_entry data) (\<lambda>address.
     bind_err (company_entry api net data) (\<lambda>job.
     bind_err (extra_entries api data) (\<lambda>extras.
     bind_err (forms_entry api net (forms_order sched contact_id) data) (\<lambda>forms_data.
     bind_err (notes_entry api net (notes_order sched contact_id) data) (\<lambda>notes_data.
       Inr (header @ [JStr address, JStr job] @ map JStr extras
            @ [JStr forms_data, JStr notes_data])))))))"

text \<open>
  What a task leaves behind: the files it wrote, as (file name, content) in the order of
  writing, and the exception it raised, if any.

  \<open>open(filename, 'w')\<close> refuses a name with a NUL character and otherwise creates or
  empties the file before \<open>'\n'.join(filter(None, contact_info))\<close> is evaluated, so a
  \<open>TypeError\<close> of the join leaves an empty file. The file system is taken to accept
  every other name and content.
\<close>

type_synonym effect = "(string \<times> string) list \<times> py_error option"

definition write_document :: "string \<Rightarrow> json list \<Rightarrow> effect" where
  "write_document filename info =
     (if CHR 0x00 \<in> set filename then ([], Some ValueError)
      else (case all_str (filter truthy info) of
              Inl e \<Rightarrow> ([(filename, [])], Some e)
            | Inr sections \<Rightarrow> ([(filename, str_join [nl] sections)], None)))"

definition process_contact :: "DayliteAPI \<Rightarrow> http \<Rightarrow> schedule \<Rightarrow> string \<Rightarrow> effect" where
  "process_contact api net sched contact_id =
     (let data = make_request net (base_url api @ ''/v1/contacts/'' @ contact_id) in
      if \<not> truthy data then ([], None)
      else
        (case bind_err (contact_name contact_id data) (\<lambda>name.
              bind_err (contact_info api net sched contact_id data name) (\<lambda>info.
                Inr (file_name name, info))) of
           Inl e \<Rightarrow> ([], Some e)
         | Inr (filename, info) \<Rightarrow> write_document filename info))"

section \<open>All contacts\<close>

text \<open>
  The result of a run: every file write, in order, and the exceptions that the loop over
  the finished contact tasks caught and logged.
\<close>

record run =
  written :: "(string \<times> string) list"
  logged :: "py_error list"

fun handle_results :: "effect list \<Rightarrow> run" where
  "handle_results [] = \<lparr> written = [], logged = [] \<rparr>"
| "handle_results ((files, raised) # rest) =
     (let r = handle_results rest in
      \<lparr> written = files @ written r,
        logged = (case raised of None \<Rightarrow> logged r | Some e \<Rightarrow> e # logged r) \<rparr>)"

definition process_all_contacts :: "DayliteAPI \<Rightarrow> http \<Rightarrow> schedule \<Rightarrow> py_error + run" where
  "process_all_contacts api net sched =
     bind_err (extract_ids api net) (\<lambda>ids.
       if max_workers api \<le> 0 then Inl ValueError
       else Inr (handle_results
                   (as_completed (contacts_order sched)
                      (map (process_contact api net sched) ids))))"

definition main :: "http \<Rightarrow> schedule \<Rightarrow> py_error + run" where
  "main net sched = process_all_contacts (DayliteAPI_init [] 10) net sched"

text \<open>The interpreter exits with 1 after an uncaught exception and with 0 otherwise.\<close>

fun exit_status :: "py_error + 'a \<Rightarrow> nat" where
  "exit_status (Inl e) = 1"
| "exit_status (Inr r) = 0"

section \<open>Notions for the statements\<close>

text \<open>\<open>d.get(key, default)\<close> on the entries of a dict.\<close>

definition lookup_default :: "(string \<times> json) list \<Rightarrow> string \<Rightarrow> json \<Rightarrow> json" where
  "lookup_default kvs k d = (case map_of kvs k of None \<Rightarrow> d | Some v \<Rightarrow> v)"

text \<open>The text an entry of \<open>contact_info\<close> adds to the document: none when it is falsy.\<close>

definition entry_text :: "json \<Rightarrow> string" where
  "entry_text v = (if truthy v then py_str v else [])"

text \<open>The document made of a list of sections, the empty ones left out.\<close>

definition document :: "string list \<Rightarrow> string" where
  "document sections = str_join [nl] (filter (\<lambda>s. s \<noteq> []) sections)"

text \<open>A loop step that puts one more line before the lines of the remaining steps.\<close>

definition with_line :: "string \<Rightarrow> py_error + string list \<Rightarrow> py_error + string list" where
  "with_line l m = bind_err m (\<lambda>others. Inr (l # others))"

text \<open>What the result of one finished task adds to the list that the loop collects.\<close>

fun result_text :: "py_error + string option \<Rightarrow> string list" where
  "result_text (Inr (Some s)) = (if s \<noteq> [] then [s] else [])"
| "result_text _ = []"

text \<open>The exception a task ended with, as a list of at most one element.\<close>

definition raised_list :: "effect \<Rightarrow> py_error list" where
  "raised_list eff = (case snd eff of None \<Rightarrow> [] | Some e \<Rightarrow> [e])"

section \<open>Example inputs\<close>

text \<open>The client that \<open>main\<close> builds, and two runs' completion orders.\<close>

definition client :: DayliteAPI where
  "client = DayliteAPI_init [] 10"

definition in_order :: schedule where
  "in_order =
     \<lparr> contacts_order = (\<lambda>n. [0..<n]),
       forms_order = (\<lambda>c n. [0..<n]),
       notes_order = (\<lambda>c n. [0..<n]) \<rparr>"

definition reversed :: schedule where
  "reversed =
     \<lparr> contacts_order = (\<lambda>n. rev [0..<n]),
       forms_order = (\<lambda>c n. rev [0..<n]),
       notes_order = (\<lambda>c n. rev [0..<n]) \<rparr>"

text \<open>A contact whose record lists no form and no note.\<close>

definition net_empty_lists :: http where
  "net_empty_lists =
     map_of [(''https://api.marketcircle.net/v1/contacts/1'',
              JDict [(''full_name'', JStr ''Ann''),
                     (''forms'', JList []),
                     (''notes'', JList [])])]"

text \<open>Every request fails; every request answers with an empty list.\<close>

definition net_down :: http where
  "net_down = (\<lambda>url. None)"

definition net_all_empty :: http where
  "net_all_empty = (\<lambda>url. Some (JList []))"

text \<open>A listing without contacts.\<close>

definition net_no_contacts :: http where
  "net_no_contacts = map_of [(''https://api.marketcircle.net/v1/contacts'', JList [])]"

text \<open>One contact, of which only the name is recorded, and the document written for it.\<close>

definition net_bob :: http where
  "net_bob =
     map_of [(''https://api.marketcircle.net/v1/contacts'',
              JList [JDict [(''self'', JStr ''/v1/contacts/1'')]]),
             (''https://api.marketcircle.net/v1/contacts/1'',
              JDict [(''full_name'', JStr ''Bob'')])]"

definition bob_text :: string where
  "bob_text = str_join [nl]
     [''Bob'', ''Keywords: '', ''Birthday: '', ''Anniversary: '', ''No location found'',
      ''No job information found'', ''No forms found'', ''No notes found'']"

text \<open>Two contacts: the first has an empty list of forms, the second is the one above.\<close>

definition net_two :: http where
  "net_two =
     map_of [(''https://api.marketcircle.net/v1/contacts'',
              JList [JDict [(''self'', JStr ''/v1/contacts/1'')],
                     JDict [(''self'', JStr ''/v1/contacts/2'')]]),
             (''https://api.marketcircle.net/v1/contacts/1'',
              JDict [(''full_name'', JStr ''Ann''), (''forms'', JList [])]),
             (''https://api.marketcircle.net/v1/contacts/2'',
              JDict [(''full_name'', JStr ''Bob'')])]"

text \<open>A contact whose list of addresses is empty.\<close>

definition net_no_address_list :: http where
  "net_no_address_list =
     map_of [(''https://api.marketcircle.net/v1/contacts/1'',
              JDict [(''full_name'', JStr ''Cy''), (''addresses'', JList [])])]"

text \<open>A contact whose name is longer than twenty characters.\<close>

definition net_long_name :: http where
  "net_long_name =
     map_of [(''https://api.marketcircle.net/v1/contacts/1'',
              JDict [(''full_name'', JStr ''Alexander Bartholomew Smith'')])]"

text \<open>
  A form with a value that has a plus sign, and a form named after geo coordinates.
\<close>

definition net_forms :: http where
  "net_forms =
     map_of [(''https://api.marketcircle.net/v1/forms/7'',
              JDict [(''name'', JStr ''Survey''),
                     (''values'', JList [JDict [(''name'', JStr ''a''), (''value'', JStr ''1+2'')],
                                         JDict [(''name'', JStr ''b''), (''value'', JStr ''ok'')]])]),
             (''https://api.marketcircle.net/v1/forms/8'',
              JDict [(''name'', JStr ''Home Geo Coordinates''),
                     (''values'', JList [JDict [(''name'', JStr ''lat''), (''value'', JStr ''45'')]])])]"

text \<open>A contact with two forms and two notes, and the document written for it.\<close>

definition net_dee :: http where
  "net_dee =
     map_of [(''https://api.marketcircle.net/v1/contacts/1'',
              JDict [(''full_name'', JStr ''Dee''),
                     (''forms'', JList [JDict [(''form'', JStr ''/v1/forms/7'')],
                                        JDict [(''form'', JStr ''/v1/forms/9'')]]),
                     (''notes'', JList [JDict [(''note'', JStr ''/v1/notes/3'')],
                                        JDict [(''note'', JStr ''/v1/notes/4'')]])]),
             (''https://api.marketcircle.net/v1/forms/7'',
              JDict [(''name'', JStr ''Survey''),
                     (''values'', JList [JDict [(''name'', JStr ''b''), (''value'', JStr ''ok'')]])]),
             (''https://api.marketcircle.net/v1/forms/9'',
              JDict [(''name'', JStr ''Visit'')]),
             (''https://api.marketcircle.net/v1/notes/3'',
              JDict [(''title'', JStr ''First''), (''details'', JStr ''call'')]),
             (''https://api.marketcircle.net/v1/notes/4'',
              JDict [(''title'', JStr ''Second''), (''details'', JStr ''visit'')])]"

definition dee_text :: "string list \<Rightarrow> string list \<Rightarrow> string" where
  "dee_text form_blocks note_blocks =
     str_join [nl]
       [''Dee'', ''Keywords: '', ''Birthday: '', ''Anniversary: '', ''No location found'',
        ''No job information found'', str_join [nl] form_blocks, str_join [nl] note_blocks]"

definition form_7 :: string where
  "form_7 = str_join [nl] [nl # ''Form Name: Survey'', [nl], '' - b: ok'']"

definition form_9 :: string where
  "form_9 = str_join [nl] [nl # ''Form Name: Visit'', [nl]]"

definition note_3 :: string where
  "note_3 = nl # ''First'' @ nl # ''call''"

definition note_4 :: string where
  "note_4 = nl # ''Second'' @ nl # ''visit''"

section \<open>Basic facts\<close>

lemma bind_err_Inl [simp]: "bind_err (Inl e) f = Inl e"
  by (simp add: bind_err_def)

lemma bind_err_Inr [simp]: "bind_err (Inr x) f = f x"
  by (simp add: bind_err_def)

lemma bind_err_eq_Inr: "bind_err m f = Inr y \<longleftrightarrow> (\<exists>x. m = Inr x \<and> f x = Inr y)"
  by (cases m) simp_all

lemma bind_err_eq_Inl:
  "bind_err m f = Inl e \<longleftrightarrow> m = Inl e \<or> (\<exists>x. m = Inr x \<and> f x = Inl e)"
  by (cases m) simp_all

lemma client_simps [simp]:
  "base_url client = ''https://api.marketcircle.net''"
  "max_workers client = 10"
  by (simp_all add: client_def DayliteAPI_init_def)

section \<open>A pool of zero workers\<close>

lemma process_forms_Nil: "process_forms api net order [] = Inl ValueError"
  by (simp add: process_forms_def)

lemma process_notes_Nil: "process_notes api net order [] = Inl ValueError"
  by (simp add: process_notes_def)

lemma forms_entry_empty:
  "map_of kvs ''forms'' = Some (JList []) \<Longrightarrow>
     forms_entry api net order (JDict kvs) = Inl ValueError"
  by (simp add: forms_entry_def except_key_def process_forms_Nil)

lemma notes_entry_empty:
  "map_of kvs ''notes'' = Some (JList []) \<Longrightarrow>
     notes_entry api net order (JDict kvs) = Inl ValueError"
  by (simp add: notes_entry_def except_key_def process_notes_Nil)

lemma contact_info_raises:
  assumes "forms_entry api net (forms_order sched cid) data = Inl e1
           \<or> notes_entry api net (notes_order sched cid) data = Inl e2"
  shows "\<exists>e. contact_info api net sched cid data name = Inl e"
  using assms unfolding contact_info_def
  by (cases "header_entries data name"; cases "address_entry data";
      cases "company_entry api net data"; cases "extra_entries api data";
      cases "forms_entry api net (forms_order sched cid) data";
      cases "notes_entry api net (notes_order sched cid) data") auto

lemma process_contact_raises:
  assumes "net (base_url api @ ''/v1/contacts/'' @ cid) = Some data" and "truthy data"
    and "\<And>name. \<exists>e. contact_info api net sched cid data name = Inl e"
  shows "\<exists>e. process_contact api net sched cid = ([], Some e)"
proof (cases "contact_name cid data")
  case (Inl e)
  with assms(1,2) show ?thesis
    by (simp add: process_contact_def make_request_def)
next
  case (Inr name)
  from assms(3) obtain e where "contact_info api net sched cid data name = Inl e" by blast
  with Inr assms(1,2) show ?thesis
    by (simp add: process_contact_def make_request_def)
qed

text \<open>
  C6. When the contact record has the key \<open>forms\<close> (or \<open>notes\<close>) with an empty list,
  the aggregation asks for a pool of \<open>min(0, max_workers) = 0\<close> workers, which raises
  \<open>ValueError\<close>; the handler around it catches \<open>KeyError\<close> only, so \<open>_process_contact\<close>
  ends with an exception and has written no file.
\<close>

theorem empty_forms_or_notes_no_file:
  assumes "net (base_url api @ ''/v1/contacts/'' @ cid) = Some (JDict kvs)"
    and "map_of kvs ''forms'' = Some (JList []) \<or> map_of kvs ''notes'' = Some (JList [])"
  shows "(map_of kvs ''forms'' = Some (JList []) \<longrightarrow>
            forms_entry api net (forms_order sched cid) (JDict kvs) = Inl ValueError)
       \<and> (map_of kvs ''notes'' = Some (JList []) \<longrightarrow>
            notes_entry api net (notes_order sched cid) (JDict kvs) = Inl ValueError)
       \<and> (\<exists>e. process_contact api net sched cid = ([], Some e))"
proof -
  from assms(2) have ne: "kvs \<noteq> []" by auto
  have raises: "\<exists>e. contact_info api net sched cid (JDict kvs) name = Inl e" for name
    using assms(2) forms_entry_empty notes_entry_empty contact_info_raises by metis
  have "\<exists>e. process_contact api net sched cid = ([], Some e)"
    using process_contact_raises [of net api cid "JDict kvs" sched] assms(1) ne raises
    by simp
  then show ?thesis
    using forms_entry_empty notes_entry_empty by blast
qed

theorem empty_forms_or_notes_no_file_witness:
  "forms_entry client net_empty_lists (forms_order in_order ''1'')
     (JDict [(''full_name'', JStr ''Ann''), (''forms'', JList []), (''notes'', JList [])])
     = Inl ValueError
   \<and> notes_entry client net_empty_lists (notes_order in_order ''1'')
     (JDict [(''full_name'', JStr ''Ann''), (''forms'', JList []), (''notes'', JList [])])
     = Inl ValueError
   \<and> (\<exists>e. process_contact client net_empty_lists in_order ''1'' = ([], Some e))"
  using empty_forms_or_notes_no_file
    [where net = net_empty_lists and api = client and cid = "''1''" and sched = in_order
       and kvs = "[(''full_name'', JStr ''Ann''), (''forms'', JList []), (''notes'', JList [])]"]
  by (simp add: net_empty_lists_def)

section \<open>A falsy body and a failed request\<close>

lemma make_request_falsy:
  "net url = Some body \<Longrightarrow> \<not> truthy body \<Longrightarrow> \<not> truthy (make_request net url)"
  by (simp add: make_request_def)

lemma make_request_failed: "make_request (net(url := None)) url = JNull"
  by (simp add: make_request_def)

lemma extract_ids_falsy:
  "\<not> truthy (make_request net (base_url api @ ''/v1/contacts'')) \<Longrightarrow> extract_ids api net = Inr []"
  by (simp add: extract_ids_def)

lemma process_contact_falsy:
  "\<not> truthy (make_request net (base_url api @ ''/v1/contacts/'' @ cid)) \<Longrightarrow>
     process_contact api net sched cid = ([], None)"
  by (simp add: process_contact_def)

lemma process_single_form_falsy:
  "\<not> truthy (make_request net (base_url api @ ''/v1/forms/'' @ fid)) \<Longrightarrow>
     process_single_form api net fid = Inr (Some [])"
  by (simp add: process_single_form_def)

lemma process_single_note_falsy:
  "\<not> truthy (make_request net (base_url api @ ''/v1/notes/'' @ nid)) \<Longrightarrow>
     process_single_note api net nid = Inr (Some [])"
  by (simp add: process_single_note_def)

lemma company_entry_falsy:
  assumes "getitem_key data ''companies'' = Inr companies"
    and "getitem_0 companies = Inr company"
    and "getitem_key company ''company'' = Inr link"
    and "getitem_key company ''role'' = Inr role"
    and "\<not> truthy (make_request net (base_url api @ py_str link))"
  shows "company_entry api net data = Inr (''Job: '' @ py_str role @ '' at Unknown Company'')"
  using assms by (simp add: company_entry_def except_key_index_def)

text \<open>
  C10. A request that succeeds with a falsy body (an empty list, an empty dict, \<open>null\<close>)
  has the effect of the same request failing: \<open>extract_ids\<close> returns no id,
  \<open>_process_contact\<close> returns without writing, the company name becomes
  \<open>Unknown Company\<close>, and a form or a note contributes the empty string.
\<close>

theorem falsy_body_like_failed_fetch:
  assumes "\<not> truthy body"
  shows "(net (base_url api @ ''/v1/contacts'') = Some body \<longrightarrow>
            extract_ids api net = Inr []
            \<and> extract_ids api (net(base_url api @ ''/v1/contacts'' := None)) = Inr [])
       \<and> (net (base_url api @ ''/v1/contacts/'' @ cid) = Some body \<longrightarrow>
            process_contact api net sched cid = ([], None)
            \<and> process_contact api (net(base_url api @ ''/v1/contacts/'' @ cid := None)) sched cid
              = ([], None))
       \<and> (getitem_key data ''companies'' = Inr companies
            \<and> getitem_0 companies = Inr company
            \<and> getitem_key company ''company'' = Inr link
            \<and> getitem_key company ''role'' = Inr role
            \<and> net (base_url api @ py_str link) = Some body \<longrightarrow>
            company_entry api net data = Inr (''Job: '' @ py_str role @ '' at Unknown Company'')
            \<and> company_entry api (net(base_url api @ py_str link := None)) data
              = Inr (''Job: '' @ py_str role @ '' at Unknown Company''))
       \<and> (net (base_url api @ ''/v1/forms/'' @ fid) = Some body \<longrightarrow>
            process_single_form api net fid = Inr (Some [])
            \<and> process_single_form api (net(base_url api @ ''/v1/forms/'' @ fid := None)) fid
              = Inr (Some []))
       \<and> (net (base_url api @ ''/v1/notes/'' @ nid) = Some body \<longrightarrow>
            process_single_note api net nid = Inr (Some [])
            \<and> process_single_note api (net(base_url api @ ''/v1/notes/'' @ nid := None)) nid
              = Inr (Some []))"
proof -
  have listing: "extract_ids api net = Inr []
      \<and> extract_ids api (net(base_url api @ ''/v1/contacts'' := None)) = Inr []"
    if "net (base_url api @ ''/v1/contacts'') = Some body"
    using that assms by (simp add: extract_ids_falsy make_request_falsy make_request_failed)
  have detail: "process_contact api net sched cid = ([], None)
      \<and> process_contact api (net(base_url api @ ''/v1/contacts/'' @ cid := None)) sched cid
        = ([], None)"
    if "net (base_url api @ ''/v1/contacts/'' @ cid) = Some body"
    using that assms by (simp add: process_contact_falsy make_request_falsy make_request_failed)
  have company: "company_entry api net data = Inr (''Job: '' @ py_str role @ '' at Unknown Company'')
      \<and> company_entry api (net(base_url api @ py_str link := None)) data
        = Inr (''Job: '' @ py_str role @ '' at Unknown Company'')"
    if "getitem_key data ''companies'' = Inr companies" "getitem_0 companies = Inr company"
      "getitem_key company ''company'' = Inr link" "getitem_key company ''role'' = Inr role"
      "net (base_url api @ py_str link) = Some body"
    using that assms by (simp add: company_entry_falsy make_request_falsy make_request_failed)
  have form: "process_single_form api net fid = Inr (Some [])
      \<and> process_single_form api (net(base_url api @ ''/v1/forms/'' @ fid := None)) fid
        = Inr (Some [])"
    if "net (base_url api @ ''/v1/forms/'' @ fid) = Some body"
    using that assms
    by (simp add: process_single_form_falsy make_request_falsy make_request_failed)
  have note_task: "process_single_note api net nid = Inr (Some [])
      \<and> process_single_note api (net(base_url api @ ''/v1/notes/'' @ nid := None)) nid
        = Inr (Some [])"
    if "net (base_url api @ ''/v1/notes/'' @ nid) = Some body"
    using that assms
    by (simp add: process_single_note_falsy make_request_falsy make_request_failed)
  from listing detail company form note_task show ?thesis by blast
qed

theorem falsy_body_like_failed_fetch_witness:
  "extract_ids client net_all_empty = Inr []
   \<and> extract_ids client (net_all_empty(''https://api.marketcircle.net/v1/contacts'' := None)) = Inr []
   \<and> process_contact client net_all_empty in_order ''1'' = ([], None)
   \<and> process_contact client (net_all_empty(''https://api.marketcircle.net/v1/contacts/1'' := None))
        in_order ''1'' = ([], None)
   \<and> company_entry client net_all_empty
        (JDict [(''companies'', JList [JDict [(''company'', JStr ''/v1/companies/7''),
                                              (''role'', JStr ''Agent'')]])])
      = Inr ''Job: Agent at Unknown Company''
   \<and> company_entry client (net_all_empty(''https://api.marketcircle.net/v1/companies/7'' := None))
        (JDict [(''companies'', JList [JDict [(''company'', JStr ''/v1/companies/7''),
                                              (''role'', JStr ''Agent'')]])])
      = Inr ''Job: Agent at Unknown Company''
   \<and> process_single_form client net_all_empty ''3'' = Inr (Some [])
   \<and> process_single_form client (net_all_empty(''https://api.marketcircle.net/v1/forms/3'' := None)) ''3''
      = Inr (Some [])
   \<and> process_single_note client net_all_empty ''4'' = Inr (Some [])
   \<and> process_single_note client (net_all_empty(''https://api.marketcircle.net/v1/notes/4'' := None)) ''4''
      = Inr (Some [])"
  using falsy_body_like_failed_fetch
    [where body = "JList []" and net = net_all_empty and api = client and cid = "''1''"
       and sched = in_order and fid = "''3''" and nid = "''4''"
       and data = "JDict [(''companies'', JList [JDict [(''company'', JStr ''/v1/companies/7''),
                                              (''role'', JStr ''Agent'')]])]"
       and companies = "JList [JDict [(''company'', JStr ''/v1/companies/7''),
                                              (''role'', JStr ''Agent'')]]"
       and company = "JDict [(''company'', JStr ''/v1/companies/7''), (''role'', JStr ''Agent'')]"
       and link = "JStr ''/v1/companies/7''" and role = "JStr ''Agent''"]
  by (simp add: net_all_empty_def)

section \<open>The exit status\<close>

text \<open>
  C9, as the specification states it, fails: a run whose listing request fails, a run
  whose listing is empty and a run that writes a contact's file all return normally
  from \<open>main\<close>, with the same exit status.
\<close>

theorem exit_status_counterexample:
  "main net_down in_order = Inr \<lparr> written = [], logged = [] \<rparr>
   \<and> main net_no_contacts in_order = Inr \<lparr> written = [], logged = [] \<rparr>
   \<and> main net_bob in_order = Inr \<lparr> written = [(''Bob.txt'', bob_text)], logged = [] \<rparr>
   \<and> exit_status (main net_down in_order) = exit_status (main net_bob in_order)
   \<and> exit_status (main net_no_contacts in_order) = exit_status (main net_bob in_order)"
  by code_simp


lemma main_eq: "main net sched = process_all_contacts client net sched"
  by (simp add: main_def client_def)

text \<open>
  C9, amended. \<open>main\<close> never calls \<open>sys.exit\<close>, so the exit status is 0 unless an
  exception leaves \<open>main\<close>, and only \<open>extract_ids\<close> can raise one (on a listing body of
  an unexpected shape): the status of a run is that of its \<open>extract_ids\<close> call. A listing
  request that fails or answers with a falsy body gives status 0, and no failure of a
  contact changes the status.
\<close>

theorem exit_status_of_main:
  "exit_status (main net sched) = exit_status (extract_ids client net)
   \<and> (\<not> truthy (make_request net ''https://api.marketcircle.net/v1/contacts'') \<longrightarrow>
        exit_status (main net sched) = 0)"
proof -
  have a: "exit_status (main net sched) = exit_status (extract_ids client net)"
    by (cases "extract_ids client net") (simp_all add: main_eq process_all_contacts_def)
  have b: "extract_ids client net = Inr []"
    if "\<not> truthy (make_request net ''https://api.marketcircle.net/v1/contacts'')"
    using that extract_ids_falsy [of net client] by simp
  from a b show ?thesis by auto
qed

theorem exit_status_of_main_witness:
  "exit_status (main net_down reversed) = exit_status (extract_ids client net_down)
   \<and> exit_status (main net_down reversed) = 0"
  using exit_status_of_main [of net_down reversed]
  by (simp add: net_down_def make_request_def)

section \<open>The loop over the contacts\<close>

lemma mset_as_completed:
  assumes "valid_order order"
  shows "mset (as_completed order xs) = mset xs"
proof -
  have "mset (as_completed order xs) = image_mset ((!) xs) (mset (order (length xs)))"
    by (simp only: as_completed_def mset_map)
  also have "\<dots> = image_mset ((!) xs) (mset [0..<length xs])"
    using assms by (simp only: valid_order_def)
  also have "\<dots> = mset (map ((!) xs) [0..<length xs])"
    by (simp only: mset_map)
  also have "\<dots> = mset xs"
    by (simp only: map_nth)
  finally show ?thesis .
qed

lemma mset_concat_map_cong:
  assumes "mset xs = mset ys"
  shows "mset (concat (map f xs)) = mset (concat (map f ys))"
proof -
  have "mset (concat (map f zs)) = sum_mset (image_mset (\<lambda>z. mset (f z)) (mset zs))" for zs
    by (induction zs) simp_all
  with assms show ?thesis by simp
qed

lemma written_handle_results: "written (handle_results es) = concat (map fst es)"
  by (induction es rule: handle_results.induct) (simp_all add: Let_def)

lemma logged_handle_results: "logged (handle_results es) = concat (map raised_list es)"
  by (induction es rule: handle_results.induct)
    (simp_all add: Let_def raised_list_def split: option.splits)

text \<open>
  C7. Once the ids are extracted and the pool is built, \<open>process_all_contacts\<close> returns
  normally whatever the contact tasks do; its result holds the files of every contact
  of the batch and one logged exception for every contact task that raised, in whatever
  order the tasks finished.
\<close>

theorem contact_failures_are_isolated:
  assumes "extract_ids api net = Inr ids"
    and "0 < max_workers api"
    and "valid_order (contacts_order sched)"
  shows "\<exists>r. process_all_contacts api net sched = Inr r
           \<and> mset (written r) = mset (concat (map (\<lambda>c. fst (process_contact api net sched c)) ids))
           \<and> mset (logged r)
             = mset (concat (map (\<lambda>c. raised_list (process_contact api net sched c)) ids))"
proof -
  let ?tasks = "map (process_contact api net sched) ids"
  let ?r = "handle_results (as_completed (contacts_order sched) ?tasks)"
  have run: "process_all_contacts api net sched = Inr ?r"
    using assms(1,2) by (simp add: process_all_contacts_def)
  have perm: "mset (as_completed (contacts_order sched) ?tasks) = mset ?tasks"
    by (rule mset_as_completed [OF assms(3)])
  have w: "mset (written ?r) = mset (concat (map fst ?tasks))"
    unfolding written_handle_results by (rule mset_concat_map_cong [OF perm])
  have l: "mset (logged ?r) = mset (concat (map raised_list ?tasks))"
    unfolding logged_handle_results by (rule mset_concat_map_cong [OF perm])
  from run w l show ?thesis by (simp add: comp_def)
qed

theorem contact_failures_are_isolated_witness:
  "\<exists>r. process_all_contacts client net_two reversed = Inr r
        \<and> mset (written r) = {#(''Bob.txt'', bob_text)#}
        \<and> mset (logged r) = {#ValueError#}"
proof -
  have ids: "extract_ids client net_two = Inr [''1'', ''2'']" by code_simp
  have ann: "process_contact client net_two reversed ''1'' = ([], Some ValueError)" by code_simp
  have bob: "process_contact client net_two reversed ''2'' = ([(''Bob.txt'', bob_text)], None)"
    by code_simp
  have workers: "0 < max_workers client" by simp
  have order: "valid_order (contacts_order reversed)"
    by (simp add: valid_order_def reversed_def)
  from contact_failures_are_isolated [OF ids workers order] ann bob
  show ?thesis by (simp add: raised_list_def)
qed

section \<open>The written document\<close>

lemma dict_get_Inr_dict: "dict_get d k x = Inr v \<Longrightarrow> \<exists>kvs. d = JDict kvs"
  by (cases d) simp_all

lemma contact_name_dict: "contact_name cid data = Inr name \<Longrightarrow> \<exists>kvs. data = JDict kvs"
  by (auto simp: contact_name_def bind_err_eq_Inr dest: dict_get_Inr_dict)

lemma process_contact_unfold:
  assumes "make_request net (base_url api @ ''/v1/contacts/'' @ cid) = data"
    and "truthy data" and "contact_name cid data = Inr name"
  shows "process_contact api net sched cid =
           (case contact_info api net sched cid data name of
              Inl e \<Rightarrow> ([], Some e)
            | Inr info \<Rightarrow> write_document (file_name name) info)"
  using assms by (simp add: process_contact_def split: sum.splits)

lemma write_document_written:
  "write_document filename info = ([(f, text)], None) \<longleftrightarrow>
     CHR 0x00 \<notin> set filename \<and> f = filename
     \<and> (\<exists>sections. all_str (filter truthy info) = Inr sections \<and> text = str_join [nl] sections)"
  by (auto simp: write_document_def split: sum.splits)

lemma process_contact_written:
  assumes "process_contact api net sched cid = ([(f, text)], None)"
  shows "\<exists>kvs name info sections.
           make_request net (base_url api @ ''/v1/contacts/'' @ cid) = JDict kvs
           \<and> kvs \<noteq> []
           \<and> contact_name cid (JDict kvs) = Inr name
           \<and> f = file_name name
           \<and> CHR 0x00 \<notin> set f
           \<and> contact_info api net sched cid (JDict kvs) name = Inr info
           \<and> all_str (filter truthy info) = Inr sections
           \<and> text = str_join [nl] sections"
proof -
  let ?data = "make_request net (base_url api @ ''/v1/contacts/'' @ cid)"
  have t: "truthy ?data"
    using assms by (auto simp: process_contact_def Let_def split: if_splits)
  obtain name where n: "contact_name cid ?data = Inr name"
    using assms t by (cases "contact_name cid ?data") (auto simp: process_contact_def)
  then obtain kvs where k: "?data = JDict kvs"
    using contact_name_dict by blast
  have u: "process_contact api net sched cid =
           (case contact_info api net sched cid ?data name of
              Inl e \<Rightarrow> ([], Some e)
            | Inr info \<Rightarrow> write_document (file_name name) info)"
    using process_contact_unfold [OF refl t n] .
  then obtain info where i: "contact_info api net sched cid ?data name = Inr info"
    and w: "write_document (file_name name) info = ([(f, text)], None)"
    using assms by (cases "contact_info api net sched cid ?data name") auto
  from w obtain sections where "CHR 0x00 \<notin> set (file_name name)" "f = file_name name"
    "all_str (filter truthy info) = Inr sections" "text = str_join [nl] sections"
    unfolding write_document_written by blast
  with t n k i show ?thesis by auto
qed

lemma contact_info_Inr:
  "contact_info api net sched cid data name = Inr info \<longleftrightarrow>
     (\<exists>header address job extras forms_data notes_data.
        header_entries data name = Inr header
        \<and> address_entry data = Inr address
        \<and> company_entry api net data = Inr job
        \<and> extra_entries api data = Inr extras
        \<and> forms_entry api net (forms_order sched cid) data = Inr forms_data
        \<and> notes_entry api net (notes_order sched cid) data = Inr notes_data
        \<and> info = header @ [JStr address, JStr job] @ map JStr extras
                 @ [JStr forms_data, JStr notes_data])"
  by (auto simp: contact_info_def bind_err_eq_Inr)

lemma all_str_Inr: "all_str xs = Inr ss \<longleftrightarrow> xs = map JStr ss"
proof (induction xs arbitrary: ss)
  case Nil
  then show ?case by auto
next
  case (Cons x xs)
  then show ?case by (cases x) (auto simp: bind_err_eq_Inr)
qed

subsection \<open>Lines of a joined text\<close>

lemma py_split_not_Nil: "py_split c s \<noteq> []"
  by (induction s) (auto split: list.splits)

lemma py_split_append:
  "py_split c (a @ c # b) = py_split c a @ py_split c b"
proof (induction a)
  case Nil
  then show ?case by simp
next
  case (Cons x a)
  obtain w ws where "py_split c a = w # ws"
    using py_split_not_Nil [of c a] by (cases "py_split c a") auto
  with Cons show ?case by simp
qed

lemma py_split_join:
  "ss \<noteq> [] \<Longrightarrow> py_split c (str_join [c] ss) = concat (map (py_split c) ss)"
proof (induction "[c]" ss rule: str_join.induct)
  case 1
  then show ?case by simp
next
  case (2 x)
  then show ?case by simp
next
  case (3 x y ys)
  then show ?case using py_split_append [of c x "str_join [c] (y # ys)"] by simp
qed

lemma line_of_section:
  assumes "s \<in> set ss" and "py_split c s = [s]"
  shows "s \<in> set (py_split c (str_join [c] ss))"
proof -
  from assms(1) have "ss \<noteq> []" by auto
  then have "py_split c (str_join [c] ss) = concat (map (py_split c) ss)"
    by (rule py_split_join)
  with assms show ?thesis by force
qed

subsection \<open>The address line\<close>

lemma address_entry_fallback:
  "map_of kvs ''addresses'' = None \<or> map_of kvs ''addresses'' = Some (JList []) \<Longrightarrow>
     address_entry (JDict kvs) = Inr ''No location found''"
  by (auto simp: address_entry_def except_key_index_def)

text \<open>
  C8. When the contact record has no key \<open>addresses\<close>, or has it with an empty list,
  the address entry is \<open>No location found\<close>, and that text is a line of the document
  that \<open>_process_contact\<close> writes.
\<close>

theorem no_addresses_no_location:
  assumes "net (base_url api @ ''/v1/contacts/'' @ cid) = Some (JDict kvs)"
    and "map_of kvs ''addresses'' = None \<or> map_of kvs ''addresses'' = Some (JList [])"
    and "process_contact api net sched cid = ([(f, text)], None)"
  shows "address_entry (JDict kvs) = Inr ''No location found''
         \<and> ''No location found'' \<in> set (py_split nl text)"
proof -
  have addr: "address_entry (JDict kvs) = Inr ''No location found''"
    using assms(2) by (rule address_entry_fallback)
  have data: "make_request net (base_url api @ ''/v1/contacts/'' @ cid) = JDict kvs"
    using assms(1) by (simp add: make_request_def)
  from process_contact_written [OF assms(3)] data obtain name info sections
    where info: "contact_info api net sched cid (JDict kvs) name = Inr info"
      and secs: "all_str (filter truthy info) = Inr sections"
      and body: "text = str_join [nl] sections"
    by auto
  from info addr have "JStr ''No location found'' \<in> set info"
    by (auto simp: contact_info_Inr)
  then have "JStr ''No location found'' \<in> set (filter truthy info)" by simp
  with secs have "''No location found'' \<in> set sections"
    unfolding all_str_Inr by auto
  moreover have "py_split nl ''No location found'' = [''No location found'']" by code_simp
  ultimately have "''No location found'' \<in> set (py_split nl text)"
    unfolding body by (rule line_of_section)
  with addr show ?thesis by simp
qed

theorem no_addresses_no_location_witness:
  "address_entry (JDict [(''full_name'', JStr ''Bob'')]) = Inr ''No location found''
   \<and> ''No location found'' \<in> set (py_split nl bob_text)
   \<and> address_entry (JDict [(''full_name'', JStr ''Cy''), (''addresses'', JList [])])
       = Inr ''No location found''
   \<and> process_contact client net_no_address_list in_order ''1''
       = ([(''Cy.txt'', str_join [nl] [''Cy'', ''Keywords: '', ''Birthday: '', ''Anniversary: '',
            ''No location found'', ''No job information found'', ''No forms found'',
            ''No notes found''])], None)
   \<and> ''No location found'' \<in> set (py_split nl (str_join [nl] [''Cy'', ''Keywords: '', ''Birthday: '', ''Anniversary: '',
            ''No location found'', ''No job information found'', ''No forms found'',
            ''No notes found'']))"
proof -
  have bob: "process_contact client net_bob in_order ''1'' = ([(''Bob.txt'', bob_text)], None)"
    by code_simp
  have cy: "process_contact client net_no_address_list in_order ''1''
       = ([(''Cy.txt'', str_join [nl] [''Cy'', ''Keywords: '', ''Birthday: '', ''Anniversary: '',
            ''No location found'', ''No job information found'', ''No forms found'',
            ''No notes found''])], None)"
    by code_simp
  have net1: "net_bob (base_url client @ ''/v1/contacts/'' @ ''1'') = Some (JDict [(''full_name'', JStr ''Bob'')])"
    by (simp add: net_bob_def)
  have net2: "net_no_address_list (base_url client @ ''/v1/contacts/'' @ ''1'')
     = Some (JDict [(''full_name'', JStr ''Cy''), (''addresses'', JList [])])"
    by (simp add: net_no_address_list_def)
  from no_addresses_no_location [OF net1 _ bob] no_addresses_no_location [OF net2 _ cy] cy
  show ?thesis by simp
qed

lemma dict_get_lookup: "dict_get (JDict kvs) k d = Inr (lookup_default kvs k d)"
  by (simp add: lookup_default_def)

lemma header_entries_Inr:
  "header_entries (JDict kvs) name = Inr header \<longleftrightarrow>
     (\<exists>kw. join_obj '' '' (lookup_default kvs ''keywords'' (JStr [])) = Inr kw
        \<and> header = [JStr name,
                     lookup_default kvs ''details'' (JStr []),
                     JStr (''Keywords: '' @ kw),
                     JStr (''Birthday: '' @ py_str (lookup_default kvs ''birthday'' (JStr []))),
                     JStr (''Anniversary: ''
                             @ py_str (lookup_default kvs ''anniversary'' (JStr [])))])"
  unfolding header_entries_def dict_get_lookup
  by (auto simp: bind_err_eq_Inr)

lemma filter_truthy_JStr:
  "filter truthy (map JStr ss) = map JStr (filter (\<lambda>s. s \<noteq> []) ss)"
  by (induction ss) simp_all

lemma map_JStr_eq [simp]: "map JStr xs = map JStr ys \<longleftrightarrow> xs = ys"
  by (rule inj_map_eq_map) (simp add: inj_def)

lemma sections_of_info:
  assumes "all_str (filter truthy (JStr name # details # map JStr others)) = Inr sections"
  shows "sections = filter (\<lambda>s. s \<noteq> []) (name # entry_text details # others)
         \<and> (truthy details \<longrightarrow> details = JStr (entry_text details))"
proof -
  from assms obtain ss where ss: "filter truthy (JStr name # details # map JStr others) = map JStr ss"
    and eq: "sections = ss"
    unfolding all_str_Inr by blast
  show ?thesis
  proof (cases "truthy details")
    case True
    with ss obtain d where "details = JStr d"
      by (cases "name = []") auto
    with True ss eq show ?thesis
      by (cases "name = []") (auto simp: entry_text_def filter_truthy_JStr)
  next
    case False
    with ss eq show ?thesis
      by (cases "name = []") (auto simp: entry_text_def filter_truthy_JStr)
  qed
qed

lemma document_shape:
  assumes "process_contact api net sched cid = ([(f, text)], None)"
  shows "\<exists>kvs name kw address job extras forms_data notes_data.
           make_request net (base_url api @ ''/v1/contacts/'' @ cid) = JDict kvs
           \<and> contact_name cid (JDict kvs) = Inr name
           \<and> f = file_name name
           \<and> join_obj '' '' (lookup_default kvs ''keywords'' (JStr [])) = Inr kw
           \<and> address_entry (JDict kvs) = Inr address
           \<and> company_entry api net (JDict kvs) = Inr job
           \<and> extra_entries api (JDict kvs) = Inr extras
           \<and> forms_entry api net (forms_order sched cid) (JDict kvs) = Inr forms_data
           \<and> notes_entry api net (notes_order sched cid) (JDict kvs) = Inr notes_data
           \<and> (truthy (lookup_default kvs ''details'' (JStr [])) \<longrightarrow>
                (\<exists>d. lookup_default kvs ''details'' (JStr []) = JStr d))
           \<and> text = document
               ([name,
                 entry_text (lookup_default kvs ''details'' (JStr [])),
                 ''Keywords: '' @ kw,
                 ''Birthday: '' @ py_str (lookup_default kvs ''birthday'' (JStr [])),
                 ''Anniversary: '' @ py_str (lookup_default kvs ''anniversary'' (JStr [])),
                 address, job] @ extras @ [forms_data, notes_data])"
proof -
  from process_contact_written [OF assms] obtain kvs name info sections where
    data: "make_request net (base_url api @ ''/v1/contacts/'' @ cid) = JDict kvs"
    and name: "contact_name cid (JDict kvs) = Inr name" and f: "f = file_name name"
    and info: "contact_info api net sched cid (JDict kvs) name = Inr info"
    and secs: "all_str (filter truthy info) = Inr sections"
    and body: "text = str_join [nl] sections"
    by blast
  from info obtain header address job extras forms_data notes_data where
    h: "header_entries (JDict kvs) name = Inr header"
    and a: "address_entry (JDict kvs) = Inr address"
    and j: "company_entry api net (JDict kvs) = Inr job"
    and x: "extra_entries api (JDict kvs) = Inr extras"
    and fo: "forms_entry api net (forms_order sched cid) (JDict kvs) = Inr forms_data"
    and no: "notes_entry api net (notes_order sched cid) (JDict kvs) = Inr notes_data"
    and i: "info = header @ [JStr address, JStr job] @ map JStr extras
                 @ [JStr forms_data, JStr notes_data]"
    unfolding contact_info_Inr by blast
  from h obtain kw where
    kw: "join_obj '' '' (lookup_default kvs ''keywords'' (JStr [])) = Inr kw"
    and hd: "header = [JStr name,
                     lookup_default kvs ''details'' (JStr []),
                     JStr (''Keywords: '' @ kw),
                     JStr (''Birthday: '' @ py_str (lookup_default kvs ''birthday'' (JStr []))),
                     JStr (''Anniversary: ''
                             @ py_str (lookup_default kvs ''anniversary'' (JStr [])))]"
    unfolding header_entries_Inr by blast
  let ?others = "[''Keywords: '' @ kw,
                 ''Birthday: '' @ py_str (lookup_default kvs ''birthday'' (JStr [])),
                 ''Anniversary: '' @ py_str (lookup_default kvs ''anniversary'' (JStr [])),
                 address, job] @ extras @ [forms_data, notes_data]"
  have "info = JStr name # lookup_default kvs ''details'' (JStr []) # map JStr ?others"
    unfolding i hd by simp
  with secs have "all_str (filter truthy
      (JStr name # lookup_default kvs ''details'' (JStr []) # map JStr ?others)) = Inr sections"
    by simp
  from sections_of_info [OF this]
  have s: "sections = filter (\<lambda>s. s \<noteq> [])
             (name # entry_text (lookup_default kvs ''details'' (JStr [])) # ?others)"
    and d: "truthy (lookup_default kvs ''details'' (JStr [])) \<longrightarrow>
                (\<exists>d. lookup_default kvs ''details'' (JStr []) = JStr d)"
    by blast+
  have "text = document (name # entry_text (lookup_default kvs ''details'' (JStr [])) # ?others)"
    unfolding body s document_def ..
  with data name f kw a j x fo no d show ?thesis
    by (intro exI conjI) (assumption | simp)+
qed

lemma contact_name_Inr:
  assumes "contact_name cid (JDict kvs) = Inr name"
  shows "\<exists>raw. (map_of kvs ''full_name'' = Some (JStr raw)
                 \<or> map_of kvs ''full_name'' = None \<and> raw = ''MissingName'' @ cid)
               \<and> name = filter (\<lambda>c. c \<noteq> CHR ''/'' \<and> c \<noteq> CHR 0x5C) raw"
proof (cases "map_of kvs ''full_name''")
  case None
  with assms show ?thesis by (auto simp: contact_name_def)
next
  case (Some v)
  with assms show ?thesis by (cases v) (auto simp: contact_name_def)
qed

text \<open>
  C4, as the specification states it, fails: for a name of 27 characters the first line
  of the document is the whole name, while the file name is made of its first 20
  characters.
\<close>

theorem header_not_truncated_counterexample:
  "process_contact client net_long_name in_order ''1''
     = ([(''Alexander Bartholome.txt'',
          str_join [nl]
            [''Alexander Bartholomew Smith'', ''Keywords: '', ''Birthday: '', ''Anniversary: '',
             ''No location found'', ''No job information found'', ''No forms found'',
             ''No notes found''])], None)
   \<and> take 20 ''Alexander Bartholomew Smith'' = ''Alexander Bartholome''"
  by code_simp

text \<open>
  C4, amended. The name is \<open>full_name\<close> (or \<open>MissingName<id>\<close> when the record has no
  such key) without its path separators. The document starts with this whole name,
  when it is not empty; the file name is made of the first 20 characters of the name,
  stripped of surrounding white space, followed by \<open>.txt\<close>.
\<close>

theorem header_and_file_name:
  assumes "process_contact api net sched cid = ([(f, text)], None)"
  shows "\<exists>kvs raw name others.
           make_request net (base_url api @ ''/v1/contacts/'' @ cid) = JDict kvs
           \<and> (map_of kvs ''full_name'' = Some (JStr raw)
                \<or> map_of kvs ''full_name'' = None \<and> raw = ''MissingName'' @ cid)
           \<and> name = filter (\<lambda>c. c \<noteq> CHR ''/'' \<and> c \<noteq> CHR 0x5C) raw
           \<and> f = py_strip (take 20 name) @ ''.txt''
           \<and> text = document (name # others)"
proof -
  from document_shape [OF assms] obtain kvs name others where
    data: "make_request net (base_url api @ ''/v1/contacts/'' @ cid) = JDict kvs"
    and name: "contact_name cid (JDict kvs) = Inr name"
    and f: "f = file_name name"
    and body: "text = document (name # others)"
    by auto
  from contact_name_Inr [OF name] obtain raw where
    "map_of kvs ''full_name'' = Some (JStr raw)
       \<or> map_of kvs ''full_name'' = None \<and> raw = ''MissingName'' @ cid"
    "name = filter (\<lambda>c. c \<noteq> CHR ''/'' \<and> c \<noteq> CHR 0x5C) raw"
    by blast
  with data f body show ?thesis
    unfolding file_name_def by blast
qed

theorem header_and_file_name_witness:
  "\<exists>kvs raw name others.
      make_request net_long_name (base_url client @ ''/v1/contacts/'' @ ''1'') = JDict kvs
      \<and> (map_of kvs ''full_name'' = Some (JStr raw)
           \<or> map_of kvs ''full_name'' = None \<and> raw = ''MissingName'' @ ''1'')
      \<and> name = filter (\<lambda>c. c \<noteq> CHR ''/'' \<and> c \<noteq> CHR 0x5C) raw
      \<and> ''Alexander Bartholome.txt'' = py_strip (take 20 name) @ ''.txt''
      \<and> str_join [nl]
            [''Alexander Bartholomew Smith'', ''Keywords: '', ''Birthday: '', ''Anniversary: '',
             ''No location found'', ''No job information found'', ''No forms found'',
             ''No notes found''] = document (name # others)"
proof -
  have "process_contact client net_long_name in_order ''1''
     = ([(''Alexander Bartholome.txt'',
          str_join [nl]
            [''Alexander Bartholomew Smith'', ''Keywords: '', ''Birthday: '', ''Anniversary: '',
             ''No location found'', ''No job information found'', ''No forms found'',
             ''No notes found''])], None)"
    by code_simp
  then show ?thesis by (rule header_and_file_name)
qed

lemma lookup_default_absent: "map_of kvs k = None \<Longrightarrow> lookup_default kvs k d = d"
  by (simp add: lookup_default_def)

lemma join_obj_empty: "join_obj sep (JStr []) = Inr []"
  by (simp add: join_obj_def)

lemma company_entry_absent:
  "map_of kvs ''companies'' = None \<Longrightarrow>
     company_entry api net (JDict kvs) = Inr ''No job information found''"
  by (simp add: company_entry_def except_key_index_def)

lemma extra_entries_absent:
  "map_of kvs ''extra_fields'' = None \<Longrightarrow> extra_entries api (JDict kvs) = Inr []"
  by (simp add: extra_entries_def)

lemma forms_entry_absent:
  "map_of kvs ''forms'' = None \<Longrightarrow> forms_entry api net order (JDict kvs) = Inr ''No forms found''"
  by (simp add: forms_entry_def except_key_def)

lemma notes_entry_absent:
  "map_of kvs ''notes'' = None \<Longrightarrow> notes_entry api net order (JDict kvs) = Inr ''No notes found''"
  by (simp add: notes_entry_def except_key_def)

text \<open>
  C2, as the specification states it, fails: for a contact of which only the name is
  recorded, the document has a line for the absent keywords, birthday and anniversary
  (the bare labels), and a fallback line for each absent collection.
\<close>

theorem placeholder_lines_counterexample:
  "process_contact client net_bob in_order ''1''
     = ([(''Bob.txt'',
          str_join [nl]
            [''Bob'', ''Keywords: '', ''Birthday: '', ''Anniversary: '', ''No location found'',
             ''No job information found'', ''No forms found'', ''No notes found''])], None)
   \<and> ''Keywords: '' \<in> set (py_split nl bob_text)
   \<and> ''Birthday: '' \<in> set (py_split nl bob_text)
   \<and> ''Anniversary: '' \<in> set (py_split nl bob_text)"
  by code_simp

text \<open>
  C2, amended. The document is the newline join of the non-empty entries of
  \<open>contact_info\<close>, in their order: the name, the details, the keywords, the birthday,
  the anniversary, the address entry, the company entry, the extra-field lines, the
  text of the forms and the text of the notes, each as the code computes it from the
  contact record. An empty or absent \<open>details\<close> adds no line, nor does an empty name, an
  absent \<open>extra_fields\<close>, or an empty text of the forms or of the notes. The entries for
  keywords, birthday and anniversary are never empty: for an absent field the document
  has the bare label. An absent \<open>addresses\<close>, \<open>companies\<close>, \<open>forms\<close> or \<open>notes\<close> adds
  its fallback line.
\<close>

theorem only_empty_entries_omitted:
  assumes "process_contact api net sched cid = ([(f, text)], None)"
  shows "\<exists>kvs name d kw bd an address job extras forms_data notes_data.
           make_request net (base_url api @ ''/v1/contacts/'' @ cid) = JDict kvs
           \<and> text = document
               ([name, d, ''Keywords: '' @ kw, ''Birthday: '' @ bd, ''Anniversary: '' @ an,
                 address, job] @ extras @ [forms_data, notes_data])
           \<and> contact_name cid (JDict kvs) = Inr name
           \<and> d = entry_text (lookup_default kvs ''details'' (JStr []))
           \<and> join_obj '' '' (lookup_default kvs ''keywords'' (JStr [])) = Inr kw
           \<and> bd = py_str (lookup_default kvs ''birthday'' (JStr []))
           \<and> an = py_str (lookup_default kvs ''anniversary'' (JStr []))
           \<and> address_entry (JDict kvs) = Inr address
           \<and> company_entry api net (JDict kvs) = Inr job
           \<and> extra_entries api (JDict kvs) = Inr extras
           \<and> forms_entry api net (forms_order sched cid) (JDict kvs) = Inr forms_data
           \<and> notes_entry api net (notes_order sched cid) (JDict kvs) = Inr notes_data
           \<and> (map_of kvs ''details'' = None \<longrightarrow> d = [])
           \<and> (map_of kvs ''keywords'' = None \<longrightarrow> kw = [])
           \<and> (map_of kvs ''birthday'' = None \<longrightarrow> bd = [])
           \<and> (map_of kvs ''anniversary'' = None \<longrightarrow> an = [])
           \<and> (map_of kvs ''addresses'' = None \<longrightarrow> address = ''No location found'')
           \<and> (map_of kvs ''companies'' = None \<longrightarrow> job = ''No job information found'')
           \<and> (map_of kvs ''extra_fields'' = None \<longrightarrow> extras = [])
           \<and> (map_of kvs ''forms'' = None \<longrightarrow> forms_data = ''No forms found'')
           \<and> (map_of kvs ''notes'' = None \<longrightarrow> notes_data = ''No notes found'')"
proof -
  from document_shape [OF assms] obtain kvs name kw address job extras forms_data notes_data
    where data: "make_request net (base_url api @ ''/v1/contacts/'' @ cid) = JDict kvs"
      and name: "contact_name cid (JDict kvs) = Inr name"
      and kw: "join_obj '' '' (lookup_default kvs ''keywords'' (JStr [])) = Inr kw"
      and a: "address_entry (JDict kvs) = Inr address"
      and j: "company_entry api net (JDict kvs) = Inr job"
      and x: "extra_entries api (JDict kvs) = Inr extras"
      and fo: "forms_entry api net (forms_order sched cid) (JDict kvs) = Inr forms_data"
      and no: "notes_entry api net (notes_order sched cid) (JDict kvs) = Inr notes_data"
      and body: "text = document
               ([name,
                 entry_text (lookup_default kvs ''details'' (JStr [])),
                 ''Keywords: '' @ kw,
                 ''Birthday: '' @ py_str (lookup_default kvs ''birthday'' (JStr [])),
                 ''Anniversary: '' @ py_str (lookup_default kvs ''anniversary'' (JStr [])),
                 address, job] @ extras @ [forms_data, notes_data])"
    by (elim exE conjE) (rule that, assumption+)
  have d0: "map_of kvs ''details'' = None \<longrightarrow>
              entry_text (lookup_default kvs ''details'' (JStr [])) = []"
    by (simp add: lookup_default_absent entry_text_def)
  have kw0: "map_of kvs ''keywords'' = None \<longrightarrow> kw = []"
    using kw by (auto simp: lookup_default_absent join_obj_empty)
  have bd0: "map_of kvs ''birthday'' = None \<longrightarrow>
               py_str (lookup_default kvs ''birthday'' (JStr [])) = []"
    by (simp add: lookup_default_absent)
  have an0: "map_of kvs ''anniversary'' = None \<longrightarrow>
               py_str (lookup_default kvs ''anniversary'' (JStr [])) = []"
    by (simp add: lookup_default_absent)
  have a0: "map_of kvs ''addresses'' = None \<longrightarrow> address = ''No location found''"
    using a address_entry_fallback [of kvs] by auto
  have j0: "map_of kvs ''companies'' = None \<longrightarrow> job = ''No job information found''"
    using j company_entry_absent [of kvs api net] by auto
  have x0: "map_of kvs ''extra_fields'' = None \<longrightarrow> extras = []"
    using x extra_entries_absent [of kvs api] by auto
  have fo0: "map_of kvs ''forms'' = None \<longrightarrow> forms_data = ''No forms found''"
    using fo forms_entry_absent [of kvs api net] by auto
  have no0: "map_of kvs ''notes'' = None \<longrightarrow> notes_data = ''No notes found''"
    using no notes_entry_absent [of kvs api net] by auto
  from data body name kw a j x fo no d0 kw0 bd0 an0 a0 j0 x0 fo0 no0 show ?thesis
    by (intro exI conjI) (assumption | rule refl)+
qed

theorem only_empty_entries_omitted_witness:
  "\<exists>kvs name d kw bd an address job extras forms_data notes_data.
     make_request net_bob (base_url client @ ''/v1/contacts/'' @ ''1'') = JDict kvs
     \<and> bob_text = document
         ([name, d, ''Keywords: '' @ kw, ''Birthday: '' @ bd, ''Anniversary: '' @ an,
           address, job] @ extras @ [forms_data, notes_data])
     \<and> contact_name ''1'' (JDict kvs) = Inr name
     \<and> address_entry (JDict kvs) = Inr address
     \<and> company_entry client net_bob (JDict kvs) = Inr job
     \<and> extra_entries client (JDict kvs) = Inr extras
     \<and> forms_entry client net_bob (forms_order in_order ''1'') (JDict kvs) = Inr forms_data
     \<and> notes_entry client net_bob (notes_order in_order ''1'') (JDict kvs) = Inr notes_data
     \<and> name = ''Bob''
     \<and> d = [] \<and> kw = [] \<and> bd = [] \<and> an = []
     \<and> address = ''No location found''
     \<and> job = ''No job information found''
     \<and> extras = []
     \<and> forms_data = ''No forms found''
     \<and> notes_data = ''No notes found''"
proof -
  have run: "process_contact client net_bob in_order ''1'' = ([(''Bob.txt'', bob_text)], None)"
    by code_simp
  have data: "make_request net_bob (base_url client @ ''/v1/contacts/'' @ ''1'')
                = JDict [(''full_name'', JStr ''Bob'')]"
    by code_simp
  have bob: "contact_name ''1'' (JDict [(''full_name'', JStr ''Bob'')]) = Inr ''Bob''"
    by code_simp
  from only_empty_entries_omitted [OF run] obtain kvs name d kw bd an address job extras
    forms_data notes_data where
    k: "make_request net_bob (base_url client @ ''/v1/contacts/'' @ ''1'') = JDict kvs"
    and body: "bob_text = document
         ([name, d, ''Keywords: '' @ kw, ''Birthday: '' @ bd, ''Anniversary: '' @ an,
           address, job] @ extras @ [forms_data, notes_data])"
    and ties: "contact_name ''1'' (JDict kvs) = Inr name"
      "address_entry (JDict kvs) = Inr address"
      "company_entry client net_bob (JDict kvs) = Inr job"
      "extra_entries client (JDict kvs) = Inr extras"
      "forms_entry client net_bob (forms_order in_order ''1'') (JDict kvs) = Inr forms_data"
      "notes_entry client net_bob (notes_order in_order ''1'') (JDict kvs) = Inr notes_data"
    and absent: "map_of kvs ''details'' = None \<longrightarrow> d = []"
      "map_of kvs ''keywords'' = None \<longrightarrow> kw = []"
      "map_of kvs ''birthday'' = None \<longrightarrow> bd = []"
      "map_of kvs ''anniversary'' = None \<longrightarrow> an = []"
      "map_of kvs ''addresses'' = None \<longrightarrow> address = ''No location found''"
      "map_of kvs ''companies'' = None \<longrightarrow> job = ''No job information found''"
      "map_of kvs ''extra_fields'' = None \<longrightarrow> extras = []"
      "map_of kvs ''forms'' = None \<longrightarrow> forms_data = ''No forms found''"
      "map_of kvs ''notes'' = None \<longrightarrow> notes_data = ''No notes found''"
    by (elim exE conjE) (rule that, assumption+)
  from k data have kvs: "kvs = [(''full_name'', JStr ''Bob'')]" by simp
  from ties(1) bob have n: "name = ''Bob''" unfolding kvs by simp
  from absent have vals: "d = []" "kw = []" "bd = []" "an = []"
      "address = ''No location found''" "job = ''No job information found''" "extras = []"
      "forms_data = ''No forms found''" "notes_data = ''No notes found''"
    unfolding kvs by simp_all
  from k body ties n vals show ?thesis
    by (intro exI conjI) (assumption | rule refl)+
qed

section \<open>Extra fields\<close>






section \<open>Forms\<close>

lemma collect_results_skip_None:
  "collect_results (before @ Inr None # after) = collect_results (before @ after)"
proof (induction before)
  case Nil
  show ?case by (cases "collect_results after") simp_all
next
  case (Cons r before)
  then show ?case by (cases r) simp_all
qed

lemma process_single_form_dict:
  assumes "net (base_url api @ ''/v1/forms/'' @ fid) = Some (JDict kvs)" and "kvs \<noteq> []"
  shows "process_single_form api net fid =
          (if \<not> is_substring ''Geo Coordinates''
                  (py_str (lookup_default kvs ''name'' (JStr ''Unknown Form Name'')))
           then
             bind_err (py_iter (lookup_default kvs ''values'' (JList []))) (\<lambda>vs.
             bind_err (form_value_lines vs) (\<lambda>lines.
               Inr (Some (str_join [nl]
                 ((nl # ''Form Name: ''
                     @ py_str (lookup_default kvs ''name'' (JStr ''Unknown Form Name'')))
                  # [nl] # lines)))))
           else Inr None)"
  using assms
  by (simp add: process_single_form_def make_request_def dict_get_lookup del: dict_get.simps)

lemma form_value_lines_step:
  "form_value_lines (JDict v # vs) =
     (if lookup_default v ''value'' JNull \<noteq> JNull
         \<and> CHR ''+'' \<notin> set (py_str (lookup_default v ''value'' JNull))
      then with_line ('' - '' @ py_str (lookup_default v ''name'' JNull) @ '': ''
                        @ py_str (lookup_default v ''value'' JNull))
             (form_value_lines vs)
      else form_value_lines vs)"
  by (cases "form_value_lines vs")
    (simp_all add: with_line_def dict_get_lookup del: dict_get.simps)

text \<open>
  C3, as the specification states it, fails: a form with a value that has a plus sign
  still contributes its header line and the lines of its other values.
\<close>

theorem plus_value_counterexample:
  "process_single_form client net_forms ''7''
     = Inr (Some (str_join [nl] [nl # ''Form Name: Survey'', [nl], '' - b: ok'']))
   \<and> process_forms client net_forms (forms_order in_order ''1'') [''7'']
     = Inr (str_join [nl] [nl # ''Form Name: Survey'', [nl], '' - b: ok''])"
  by code_simp

text \<open>
  C3, amended. A form whose name, as a string, contains \<open>Geo Coordinates\<close> returns
  \<open>None\<close> and contributes nothing to the text of the forms, whatever its values are.
  Any other form contributes its header, then a line for each of its values in turn,
  except that a value which is absent or \<open>None\<close>, or whose string contains \<open>+\<close>,
  has no line.
\<close>

theorem geo_form_and_plus_values:
  assumes "net (base_url api @ ''/v1/forms/'' @ fid) = Some (JDict kvs)" and "kvs \<noteq> []"
    and "form_name = lookup_default kvs ''name'' (JStr ''Unknown Form Name'')"
  shows "(is_substring ''Geo Coordinates'' (py_str form_name) \<longrightarrow>
            process_single_form api net fid = Inr None
            \<and> collect_results (before @ process_single_form api net fid # after)
              = collect_results (before @ after))
       \<and> (\<not> is_substring ''Geo Coordinates'' (py_str form_name)
            \<and> py_iter (lookup_default kvs ''values'' (JList [])) = Inr vs
            \<and> form_value_lines vs = Inr lines \<longrightarrow>
            process_single_form api net fid
              = Inr (Some (str_join [nl]
                             ((nl # ''Form Name: '' @ py_str form_name) # [nl] # lines))))
       \<and> (map_of v ''value'' = Some x \<and> CHR ''+'' \<in> set (py_str x) \<longrightarrow>
            form_value_lines (JDict v # vs') = form_value_lines vs')
       \<and> (map_of w ''value'' = None \<or> map_of w ''value'' = Some JNull \<longrightarrow>
            form_value_lines (JDict w # vs') = form_value_lines vs')
       \<and> (map_of v ''value'' = Some x \<and> x \<noteq> JNull \<and> CHR ''+'' \<notin> set (py_str x) \<longrightarrow>
            form_value_lines (JDict v # vs')
              = with_line ('' - '' @ py_str (lookup_default v ''name'' JNull) @ '': '' @ py_str x)
                  (form_value_lines vs'))"
proof -
  note form = process_single_form_dict [of net api fid kvs, OF assms(1,2), folded assms(3)]
  have geo: "process_single_form api net fid = Inr None"
    if "is_substring ''Geo Coordinates'' (py_str form_name)"
    using that form by simp
  have other: "process_single_form api net fid
              = Inr (Some (str_join [nl]
                             ((nl # ''Form Name: '' @ py_str form_name) # [nl] # lines)))"
    if "\<not> is_substring ''Geo Coordinates'' (py_str form_name)"
      "py_iter (lookup_default kvs ''values'' (JList [])) = Inr vs"
      "form_value_lines vs = Inr lines"
    using that form by simp
  have plus: "form_value_lines (JDict v # vs') = form_value_lines vs'"
    if "map_of v ''value'' = Some x" "CHR ''+'' \<in> set (py_str x)"
    using that unfolding form_value_lines_step by (simp add: lookup_default_def)
  have plain: "form_value_lines (JDict v # vs')
              = with_line ('' - '' @ py_str (lookup_default v ''name'' JNull) @ '': '' @ py_str x)
                  (form_value_lines vs')"
    if "map_of v ''value'' = Some x" "x \<noteq> JNull" "CHR ''+'' \<notin> set (py_str x)"
    using that unfolding form_value_lines_step by (simp add: lookup_default_def)
  have none: "form_value_lines (JDict w # vs') = form_value_lines vs'"
    if "map_of w ''value'' = None \<or> map_of w ''value'' = Some JNull"
    using that unfolding form_value_lines_step by (auto simp: lookup_default_def)
  from geo other plus none plain show ?thesis
    by (simp add: collect_results_skip_None)
qed

theorem geo_form_and_plus_values_witness:
  "process_single_form client net_forms ''8'' = Inr None
   \<and> collect_results [process_single_form client net_forms ''8''] = collect_results []
   \<and> process_single_form client net_forms ''7''
       = Inr (Some (str_join [nl] [nl # ''Form Name: Survey'', [nl], '' - b: ok'']))
   \<and> form_value_lines [JDict [(''name'', JStr ''a''), (''value'', JStr ''1+2'')]]
       = form_value_lines []
   \<and> form_value_lines [JDict [(''name'', JStr ''b''), (''value'', JStr ''ok'')]]
       = with_line '' - b: ok'' (form_value_lines [])
   \<and> form_value_lines [JDict [(''name'', JStr ''c''), (''value'', JNull)]]
       = form_value_lines []
   \<and> form_value_lines [JDict [(''name'', JStr ''d'')]] = form_value_lines []
   \<and> form_value_lines [JDict [(''name'', JStr ''c''), (''value'', JNull)],
                        JDict [(''name'', JStr ''d'')],
                        JDict [(''name'', JStr ''b''), (''value'', JStr ''ok'')]]
       = Inr ['' - b: ok'']"
proof -
  have n8: "net_forms (base_url client @ ''/v1/forms/'' @ ''8'')
              = Some (JDict [(''name'', JStr ''Home Geo Coordinates''),
                     (''values'', JList [JDict [(''name'', JStr ''lat''), (''value'', JStr ''45'')]])])"
    by (simp add: net_forms_def)
  have n7: "net_forms (base_url client @ ''/v1/forms/'' @ ''7'')
              = Some (JDict [(''name'', JStr ''Survey''),
                     (''values'', JList [JDict [(''name'', JStr ''a''), (''value'', JStr ''1+2'')],
                                         JDict [(''name'', JStr ''b''), (''value'', JStr ''ok'')]])])"
    by (simp add: net_forms_def)
  have geo: "is_substring ''Geo Coordinates'' ''Home Geo Coordinates''" by code_simp
  have survey: "\<not> is_substring ''Geo Coordinates'' ''Survey''" by code_simp
  have lines: "form_value_lines [JDict [(''name'', JStr ''a''), (''value'', JStr ''1+2'')],
                                 JDict [(''name'', JStr ''b''), (''value'', JStr ''ok'')]]
                 = Inr ['' - b: ok'']"
    by code_simp
  from geo_form_and_plus_values
      [of net_forms client "''8''"
          "[(''name'', JStr ''Home Geo Coordinates''),
            (''values'', JList [JDict [(''name'', JStr ''lat''), (''value'', JStr ''45'')]])]",
       OF n8 _ refl, where before = "[]" and after = "[]"] geo
  have a: "process_single_form client net_forms ''8'' = Inr None
   \<and> collect_results [process_single_form client net_forms ''8''] = collect_results []"
    by (simp add: lookup_default_def)
  from geo_form_and_plus_values
      [of net_forms client "''7''"
          "[(''name'', JStr ''Survey''),
            (''values'', JList [JDict [(''name'', JStr ''a''), (''value'', JStr ''1+2'')],
                                JDict [(''name'', JStr ''b''), (''value'', JStr ''ok'')]])]",
       OF n7 _ refl,
      where vs = "[JDict [(''name'', JStr ''a''), (''value'', JStr ''1+2'')],
                   JDict [(''name'', JStr ''b''), (''value'', JStr ''ok'')]]"
        and lines = "['' - b: ok'']"
        and v = "[(''name'', JStr ''a''), (''value'', JStr ''1+2'')]" and x = "JStr ''1+2''"
        and vs' = "[]"] survey lines
  have b: "process_single_form client net_forms ''7''
       = Inr (Some (str_join [nl] [nl # ''Form Name: Survey'', [nl], '' - b: ok'']))
     \<and> form_value_lines [JDict [(''name'', JStr ''a''), (''value'', JStr ''1+2'')]]
       = form_value_lines []"
    by (simp add: lookup_default_def del: form_value_lines.simps)
  from geo_form_and_plus_values
      [of net_forms client "''7''"
          "[(''name'', JStr ''Survey''),
            (''values'', JList [JDict [(''name'', JStr ''a''), (''value'', JStr ''1+2'')],
                                JDict [(''name'', JStr ''b''), (''value'', JStr ''ok'')]])]",
       OF n7 _ refl,
      where v = "[(''name'', JStr ''b''), (''value'', JStr ''ok'')]" and x = "JStr ''ok''"
        and vs' = "[]"]
  have c: "form_value_lines [JDict [(''name'', JStr ''b''), (''value'', JStr ''ok'')]]
       = with_line '' - b: ok'' (form_value_lines [])"
    by (simp add: lookup_default_def del: form_value_lines.simps)
  from geo_form_and_plus_values
      [of net_forms client "''7''"
          "[(''name'', JStr ''Survey''),
            (''values'', JList [JDict [(''name'', JStr ''a''), (''value'', JStr ''1+2'')],
                                JDict [(''name'', JStr ''b''), (''value'', JStr ''ok'')]])]",
       OF n7 _ refl,
      where w = "[(''name'', JStr ''c''), (''value'', JNull)]" and vs' = "[]"]
  have d: "form_value_lines [JDict [(''name'', JStr ''c''), (''value'', JNull)]]
       = form_value_lines []"
    by (simp del: form_value_lines.simps)
  from geo_form_and_plus_values
      [of net_forms client "''7''"
          "[(''name'', JStr ''Survey''),
            (''values'', JList [JDict [(''name'', JStr ''a''), (''value'', JStr ''1+2'')],
                                JDict [(''name'', JStr ''b''), (''value'', JStr ''ok'')]])]",
       OF n7 _ refl,
      where w = "[(''name'', JStr ''d'')]" and vs' = "[]"]
  have e: "form_value_lines [JDict [(''name'', JStr ''d'')]] = form_value_lines []"
    by (simp del: form_value_lines.simps)
  have all_three: "form_value_lines [JDict [(''name'', JStr ''c''), (''value'', JNull)],
                        JDict [(''name'', JStr ''d'')],
                        JDict [(''name'', JStr ''b''), (''value'', JStr ''ok'')]]
       = Inr ['' - b: ok'']"
    by code_simp
  from a b c d e all_three show ?thesis by blast
qed

section \<open>Completion order\<close>

lemma collect_results_Inr:
  "collect_results rs = Inr acc \<longleftrightarrow>
     (\<forall>r \<in> set rs. \<exists>v. r = Inr v) \<and> acc = concat (map result_text rs)"
proof (induction rs arbitrary: acc)
  case Nil
  show ?case by auto
next
  case (Cons r rs)
  show ?case
  proof (cases r)
    case (Inl e)
    then show ?thesis by auto
  next
    case (Inr v)
    then show ?thesis
      using Cons [of "concat (map result_text rs)"]
      by (cases v) (auto simp: bind_err_eq_Inr Cons)
  qed
qed

lemma collect_results_Inl: "collect_results rs = Inl e \<Longrightarrow> Inl e \<in> set rs"
proof (induction rs)
  case Nil
  then show ?case by simp
next
  case (Cons r rs)
  then show ?case by (cases r) (auto simp: bind_err_eq_Inl)
qed

lemma no_empty_result_text: "[] \<notin> set (concat (map result_text rs))"
proof (induction rs)
  case Nil
  show ?case by simp
next
  case (Cons r rs)
  then show ?case by (cases r rule: result_text.cases) auto
qed

lemma collect_reorder:
  assumes "valid_order o1" and "valid_order o2"
    and "collect_results (as_completed o1 rs) = Inr b1"
  shows "\<exists>b2. collect_results (as_completed o2 rs) = Inr b2
              \<and> mset b2 = mset b1 \<and> [] \<notin> set b1 \<and> [] \<notin> set b2"
proof -
  have m: "mset (as_completed o2 rs) = mset (as_completed o1 rs)"
    unfolding mset_as_completed [OF assms(1)] mset_as_completed [OF assms(2)] ..
  then have s: "set (as_completed o2 rs) = set (as_completed o1 rs)"
    by (rule mset_eq_setD)
  from assms(3) have ok: "\<forall>r \<in> set (as_completed o1 rs). \<exists>v. r = Inr v"
    and b1: "b1 = concat (map result_text (as_completed o1 rs))"
    unfolding collect_results_Inr by blast+
  let ?b2 = "concat (map result_text (as_completed o2 rs))"
  have "collect_results (as_completed o2 rs) = Inr ?b2"
    unfolding collect_results_Inr using ok s by simp
  moreover have "mset ?b2 = mset b1"
    unfolding b1 by (rule mset_concat_map_cong [OF m])
  moreover have "[] \<notin> set b1" "[] \<notin> set ?b2"
    unfolding b1 by (rule no_empty_result_text)+
  ultimately show ?thesis by blast
qed

lemma str_join_Nil_iff: "[] \<notin> set bs \<Longrightarrow> str_join sep bs = [] \<longleftrightarrow> bs = []"
  by (induction sep bs rule: str_join.induct) auto

lemma form_value_lines_error: "form_value_lines vs = Inl e \<Longrightarrow> e = AttributeError"
proof (induction vs)
  case Nil
  then show ?case by simp
next
  case (Cons v vs)
  then show ?case by (cases v) (auto simp: bind_err_eq_Inl)
qed

lemma dict_get_error: "dict_get d k x = Inl e \<Longrightarrow> e = AttributeError"
  by (cases d) simp_all

lemma py_iter_error: "py_iter v = Inl e \<Longrightarrow> e = TypeError"
  by (cases v) simp_all

lemma bind_err_no_KeyError:
  "m \<noteq> Inl KeyError \<Longrightarrow> (\<And>x. f x \<noteq> Inl KeyError) \<Longrightarrow> bind_err m f \<noteq> Inl KeyError"
  by (cases m) simp_all

lemma dict_get_no_KeyError: "dict_get d k x \<noteq> Inl KeyError"
  using dict_get_error [of d k x KeyError] by auto

lemma py_iter_no_KeyError: "py_iter v \<noteq> Inl KeyError"
  using py_iter_error [of v KeyError] by auto

lemma form_value_lines_no_KeyError: "form_value_lines vs \<noteq> Inl KeyError"
  using form_value_lines_error [of vs KeyError] by auto

lemma process_single_form_no_KeyError: "process_single_form api net fid \<noteq> Inl KeyError"
proof (cases "truthy (make_request net (base_url api @ ''/v1/forms/'' @ fid))")
  case False
  then show ?thesis by (simp add: process_single_form_def)
next
  case True
  have inner: "bind_err (py_iter vals) (\<lambda>vs. bind_err (form_value_lines vs) (\<lambda>lines. Inr (Some (g lines))))
                 \<noteq> Inl KeyError" for vals and g :: "string list \<Rightarrow> string"
    by (intro bind_err_no_KeyError py_iter_no_KeyError form_value_lines_no_KeyError) simp
  have "bind_err (dict_get data ''name'' (JStr ''Unknown Form Name'')) (\<lambda>form_name.
        bind_err (dict_get data ''values'' (JList [])) (\<lambda>vals.
          if \<not> is_substring ''Geo Coordinates'' (py_str form_name) then
            bind_err (py_iter vals) (\<lambda>vs.
            bind_err (form_value_lines vs) (\<lambda>lines.
              Inr (Some (str_join [nl]
                     ((nl # ''Form Name: '' @ py_str form_name) # [nl] # lines)))))
          else Inr None)) \<noteq> Inl KeyError" for data
  proof (intro bind_err_no_KeyError dict_get_no_KeyError)
    fix form_name vals
    show "(if \<not> is_substring ''Geo Coordinates'' (py_str form_name) then
            bind_err (py_iter vals) (\<lambda>vs.
            bind_err (form_value_lines vs) (\<lambda>lines.
              Inr (Some (str_join [nl]
                     ((nl # ''Form Name: '' @ py_str form_name) # [nl] # lines)))))
          else Inr None) \<noteq> Inl KeyError"
      using inner [of vals "\<lambda>lines. str_join [nl]
                     ((nl # ''Form Name: '' @ py_str form_name) # [nl] # lines)"]
      by (simp only: if_split [where P = "\<lambda>r. r \<noteq> Inl KeyError"]) simp
  qed
  with True show ?thesis by (simp add: process_single_form_def Let_def)
qed

lemma process_single_note_no_KeyError: "process_single_note api net nid \<noteq> Inl KeyError"
proof (cases "truthy (make_request net (base_url api @ ''/v1/notes/'' @ nid))")
  case False
  then show ?thesis by (simp add: process_single_note_def)
next
  case True
  have "bind_err (dict_get data ''title'' (JStr ''No title found'')) (\<lambda>title.
        bind_err (dict_get data ''details'' (JStr ''No content found'')) (\<lambda>content.
          Inr (Some (nl # py_str title @ nl # py_str content)))) \<noteq> Inl KeyError" for data
    by (intro bind_err_no_KeyError dict_get_no_KeyError) simp
  with True show ?thesis by (simp add: process_single_note_def Let_def)
qed

lemma set_as_completed: "valid_order order \<Longrightarrow> set (as_completed order xs) = set xs"
  by (rule mset_eq_setD) (rule mset_as_completed)

lemma process_forms_no_KeyError:
  assumes "valid_order order"
  shows "process_forms api net order ids \<noteq> Inl KeyError"
proof
  assume "process_forms api net order ids = Inl KeyError"
  then have "collect_results (as_completed order (map (process_single_form api net) ids))
               = Inl KeyError"
    by (auto simp: process_forms_def bind_err_eq_Inl split: if_splits)
  then have "Inl KeyError \<in> set (as_completed order (map (process_single_form api net) ids))"
    by (rule collect_results_Inl)
  then have "Inl KeyError \<in> set (map (process_single_form api net) ids)"
    unfolding set_as_completed [OF assms] .
  then obtain i where "process_single_form api net i = Inl KeyError"
    unfolding set_map by (elim imageE) (rule that, rule sym)
  then show False
    using process_single_form_no_KeyError by blast
qed

lemma process_notes_no_KeyError:
  assumes "valid_order order"
  shows "process_notes api net order ids \<noteq> Inl KeyError"
proof
  assume "process_notes api net order ids = Inl KeyError"
  then have "collect_results (as_completed order (map (process_single_note api net) ids))
               = Inl KeyError"
    by (auto simp: process_notes_def bind_err_eq_Inl split: if_splits)
  then have "Inl KeyError \<in> set (as_completed order (map (process_single_note api net) ids))"
    by (rule collect_results_Inl)
  then have "Inl KeyError \<in> set (map (process_single_note api net) ids)"
    unfolding set_as_completed [OF assms] .
  then obtain i where "process_single_note api net i = Inl KeyError"
    unfolding set_map by (elim imageE) (rule that, rule sym)
  then show False
    using process_single_note_no_KeyError by blast
qed

lemma process_forms_reorder:
  assumes "valid_order o1" and "valid_order o2"
    and "process_forms api net o1 ids = Inr t1"
  shows "\<exists>b1 b2. t1 = str_join [nl] b1
           \<and> process_forms api net o2 ids = Inr (str_join [nl] b2)
           \<and> mset b2 = mset b1 \<and> [] \<notin> set b1 \<and> [] \<notin> set b2"
proof -
  let ?rs = "map (process_single_form api net) ids"
  from assms(3) have w: "\<not> min (int (length ids)) (max_workers api) \<le> 0"
    by (auto simp: process_forms_def split: if_splits)
  with assms(3) obtain b1 where c1: "collect_results (as_completed o1 ?rs) = Inr b1"
    and t1: "t1 = str_join [nl] b1"
    by (auto simp: process_forms_def bind_err_eq_Inr)
  from collect_reorder [OF assms(1,2) c1] obtain b2 where
    "collect_results (as_completed o2 ?rs) = Inr b2" "mset b2 = mset b1"
    "[] \<notin> set b1" "[] \<notin> set b2"
    by blast
  with w t1 show ?thesis
    by (auto simp: process_forms_def)
qed

lemma process_notes_reorder:
  assumes "valid_order o1" and "valid_order o2"
    and "process_notes api net o1 ids = Inr t1"
  shows "\<exists>b1 b2. t1 = str_join [nl] b1
           \<and> process_notes api net o2 ids = Inr (str_join [nl] b2)
           \<and> mset b2 = mset b1 \<and> [] \<notin> set b1 \<and> [] \<notin> set b2"
proof -
  let ?rs = "map (process_single_note api net) ids"
  from assms(3) have w: "\<not> min (int (length ids)) (max_workers api) \<le> 0"
    by (auto simp: process_notes_def split: if_splits)
  with assms(3) obtain b1 where c1: "collect_results (as_completed o1 ?rs) = Inr b1"
    and t1: "t1 = str_join [nl] b1"
    by (auto simp: process_notes_def bind_err_eq_Inr)
  from collect_reorder [OF assms(1,2) c1] obtain b2 where
    "collect_results (as_completed o2 ?rs) = Inr b2" "mset b2 = mset b1"
    "[] \<notin> set b1" "[] \<notin> set b2"
    by blast
  with w t1 show ?thesis
    by (auto simp: process_notes_def)
qed

lemma valid_in_order: "valid_schedule in_order"
  by (simp add: valid_schedule_def valid_order_def in_order_def)

lemma valid_reversed: "valid_schedule reversed"
  by (simp add: valid_schedule_def valid_order_def reversed_def)

lemma bind_err_assoc:
  "bind_err (bind_err m f) g = bind_err m (\<lambda>x. bind_err (f x) g)"
  by (cases m) simp_all

lemma forms_entry_reorder:
  assumes "valid_order o1" and "valid_order o2"
    and "forms_entry api net o1 data = Inr t1"
  shows "\<exists>b1 b2. t1 = str_join [nl] b1
           \<and> forms_entry api net o2 data = Inr (str_join [nl] b2)
           \<and> mset b2 = mset b1 \<and> [] \<notin> set b1 \<and> [] \<notin> set b2"
proof -
  let ?ids = "bind_err (getitem_key data ''forms'') (\<lambda>forms.
              bind_err (py_iter forms) (link_ids ''form''))"
  have alt: "forms_entry api net order data
               = except_key (bind_err ?ids (process_forms api net order)) ''No forms found''"
    for order
    by (simp add: forms_entry_def bind_err_assoc)
  show ?thesis
  proof (cases ?ids)
    case (Inl e)
    with assms(3) have "t1 = ''No forms found''" "e = KeyError"
      unfolding alt by (simp_all add: except_key_def split: if_splits)
    with Inl have "t1 = str_join [nl] [''No forms found'']"
      "forms_entry api net o2 data = Inr (str_join [nl] [''No forms found''])"
      unfolding alt by (simp_all add: except_key_def)
    then show ?thesis by (intro exI [of _ "[''No forms found'']"] conjI) simp_all
  next
    case (Inr ids)
    have run: "forms_entry api net order data
                 = except_key (process_forms api net order ids) ''No forms found''" for order
      unfolding alt Inr by simp
    have "process_forms api net o1 ids = Inr t1"
      using assms(3) process_forms_no_KeyError [OF assms(1), of api net ids]
      unfolding run by (cases "process_forms api net o1 ids") (simp_all add: except_key_def)
    from process_forms_reorder [OF assms(1,2) this] obtain b1 b2 where
      "t1 = str_join [nl] b1" "process_forms api net o2 ids = Inr (str_join [nl] b2)"
      "mset b2 = mset b1" "[] \<notin> set b1" "[] \<notin> set b2"
      by blast
    then show ?thesis
      unfolding run by (intro exI [of _ b1] exI [of _ b2]) (simp add: except_key_def)
  qed
qed

lemma notes_entry_reorder:
  assumes "valid_order o1" and "valid_order o2"
    and "notes_entry api net o1 data = Inr t1"
  shows "\<exists>b1 b2. t1 = str_join [nl] b1
           \<and> notes_entry api net o2 data = Inr (str_join [nl] b2)
           \<and> mset b2 = mset b1 \<and> [] \<notin> set b1 \<and> [] \<notin> set b2"
proof -
  let ?ids = "bind_err (getitem_key data ''notes'') (\<lambda>notes.
              bind_err (py_iter notes) (link_ids ''note''))"
  have alt: "notes_entry api net order data
               = except_key (bind_err ?ids (process_notes api net order)) ''No notes found''"
    for order
    by (simp add: notes_entry_def bind_err_assoc)
  show ?thesis
  proof (cases ?ids)
    case (Inl e)
    with assms(3) have "t1 = ''No notes found''" "e = KeyError"
      unfolding alt by (simp_all add: except_key_def split: if_splits)
    with Inl have "t1 = str_join [nl] [''No notes found'']"
      "notes_entry api net o2 data = Inr (str_join [nl] [''No notes found''])"
      unfolding alt by (simp_all add: except_key_def)
    then show ?thesis by (intro exI [of _ "[''No notes found'']"] conjI) simp_all
  next
    case (Inr ids)
    have run: "notes_entry api net order data
                 = except_key (process_notes api net order ids) ''No notes found''" for order
      unfolding alt Inr by simp
    have "process_notes api net o1 ids = Inr t1"
      using assms(3) process_notes_no_KeyError [OF assms(1), of api net ids]
      unfolding run by (cases "process_notes api net o1 ids") (simp_all add: except_key_def)
    from process_notes_reorder [OF assms(1,2) this] obtain b1 b2 where
      "t1 = str_join [nl] b1" "process_notes api net o2 ids = Inr (str_join [nl] b2)"
      "mset b2 = mset b1" "[] \<notin> set b1" "[] \<notin> set b2"
      by blast
    then show ?thesis
      unfolding run by (intro exI [of _ b1] exI [of _ b2]) (simp add: except_key_def)
  qed
qed

lemma all_str_sections:
  assumes "truthy details \<longrightarrow> (\<exists>d. details = JStr d)"
  shows "all_str (filter truthy (JStr name # details # map JStr others))
           = Inr (filter (\<lambda>s. s \<noteq> []) (name # entry_text details # others))"
proof (cases "truthy details")
  case True
  with assms obtain d where "details = JStr d" by blast
  with True show ?thesis
    unfolding all_str_Inr by (simp add: entry_text_def filter_truthy_JStr)
next
  case False
  then show ?thesis
    unfolding all_str_Inr by (simp add: entry_text_def filter_truthy_JStr)
qed

lemma process_contact_document:
  assumes "make_request net (base_url api @ ''/v1/contacts/'' @ cid) = JDict kvs"
    and "kvs \<noteq> []"
    and "contact_name cid (JDict kvs) = Inr name"
    and "CHR 0x00 \<notin> set (file_name name)"
    and "join_obj '' '' (lookup_default kvs ''keywords'' (JStr [])) = Inr kw"
    and "truthy (lookup_default kvs ''details'' (JStr [])) \<longrightarrow>
           (\<exists>d. lookup_default kvs ''details'' (JStr []) = JStr d)"
    and "address_entry (JDict kvs) = Inr address"
    and "company_entry api net (JDict kvs) = Inr job"
    and "extra_entries api (JDict kvs) = Inr extras"
    and "forms_entry api net (forms_order sched cid) (JDict kvs) = Inr forms_data"
    and "notes_entry api net (notes_order sched cid) (JDict kvs) = Inr notes_data"
  shows "process_contact api net sched cid
           = ([(file_name name,
                document
                  ([name,
                    entry_text (lookup_default kvs ''details'' (JStr [])),
                    ''Keywords: '' @ kw,
                    ''Birthday: '' @ py_str (lookup_default kvs ''birthday'' (JStr [])),
                    ''Anniversary: '' @ py_str (lookup_default kvs ''anniversary'' (JStr [])),
                    address, job] @ extras @ [forms_data, notes_data]))], None)"
proof -
  let ?others = "[''Keywords: '' @ kw,
                 ''Birthday: '' @ py_str (lookup_default kvs ''birthday'' (JStr [])),
                 ''Anniversary: '' @ py_str (lookup_default kvs ''anniversary'' (JStr [])),
                 address, job] @ extras @ [forms_data, notes_data]"
  let ?info = "JStr name # lookup_default kvs ''details'' (JStr []) # map JStr ?others"
  have h: "header_entries (JDict kvs) name
             = Inr [JStr name,
                    lookup_default kvs ''details'' (JStr []),
                    JStr (''Keywords: '' @ kw),
                    JStr (''Birthday: '' @ py_str (lookup_default kvs ''birthday'' (JStr []))),
                    JStr (''Anniversary: ''
                            @ py_str (lookup_default kvs ''anniversary'' (JStr [])))]"
    unfolding header_entries_Inr using assms(5) by simp
  have info: "contact_info api net sched cid (JDict kvs) name = Inr ?info"
    unfolding contact_info_def h assms(7-11) by simp
  have w: "write_document (file_name name) ?info
             = ([(file_name name, document (name # entry_text (lookup_default kvs ''details'' (JStr [])) # ?others))], None)"
    unfolding write_document_def all_str_sections [OF assms(6)] document_def
    using assms(4) by simp
  have t: "truthy (JDict kvs)" using assms(2) by simp
  have "process_contact api net sched cid = write_document (file_name name) ?info"
    unfolding process_contact_unfold [OF assms(1) t assms(3)] info by simp
  with w show ?thesis by simp
qed

text \<open>
  C1. Take any two runs of \<open>_process_contact\<close> on the same contact that differ only in
  the order in which the form tasks and the note tasks finish. If the first writes a
  document, so does the second, to the same file. Both documents are made of the same
  entries in the same order: name, details, keywords, birthday, anniversary, address, job,
  the extra-field lines, the text of the forms, the text of the notes, the empty ones left
  out. The two texts of the forms are the newline joins of the same blocks in possibly
  different orders, and so are the two texts of the notes; one is empty exactly when the
  other is, so the same sections appear in both documents.
\<close>

theorem sections_in_fixed_order:
  assumes "valid_schedule s1" and "valid_schedule s2"
    and "process_contact api net s1 cid = ([(f, text1)], None)"
  shows "\<exists>kvs name details kw bd an address job extras fb1 nb1 fb2 nb2.
           make_request net (base_url api @ ''/v1/contacts/'' @ cid) = JDict kvs
           \<and> text1 = document
                 ([name, details, ''Keywords: '' @ kw, ''Birthday: '' @ bd,
                   ''Anniversary: '' @ an, address, job]
                  @ extras @ [str_join [nl] fb1, str_join [nl] nb1])
           \<and> process_contact api net s2 cid
               = ([(f, document
                         ([name, details, ''Keywords: '' @ kw, ''Birthday: '' @ bd,
                           ''Anniversary: '' @ an, address, job]
                          @ extras @ [str_join [nl] fb2, str_join [nl] nb2]))], None)
           \<and> mset fb2 = mset fb1
           \<and> mset nb2 = mset nb1
           \<and> (str_join [nl] fb2 = [] \<longleftrightarrow> str_join [nl] fb1 = [])
           \<and> (str_join [nl] nb2 = [] \<longleftrightarrow> str_join [nl] nb1 = [])
           \<and> contact_name cid (JDict kvs) = Inr name
           \<and> details = entry_text (lookup_default kvs ''details'' (JStr []))
           \<and> join_obj '' '' (lookup_default kvs ''keywords'' (JStr [])) = Inr kw
           \<and> bd = py_str (lookup_default kvs ''birthday'' (JStr []))
           \<and> an = py_str (lookup_default kvs ''anniversary'' (JStr []))
           \<and> address_entry (JDict kvs) = Inr address
           \<and> company_entry api net (JDict kvs) = Inr job
           \<and> extra_entries api (JDict kvs) = Inr extras
           \<and> forms_entry api net (forms_order s1 cid) (JDict kvs) = Inr (str_join [nl] fb1)
           \<and> forms_entry api net (forms_order s2 cid) (JDict kvs) = Inr (str_join [nl] fb2)
           \<and> notes_entry api net (notes_order s1 cid) (JDict kvs) = Inr (str_join [nl] nb1)
           \<and> notes_entry api net (notes_order s2 cid) (JDict kvs) = Inr (str_join [nl] nb2)"
proof -
  from assms(1,2) have vf: "valid_order (forms_order s1 cid)" "valid_order (forms_order s2 cid)"
    and vn: "valid_order (notes_order s1 cid)" "valid_order (notes_order s2 cid)"
    by (simp_all add: valid_schedule_def)
  from document_shape [OF assms(3)] obtain kvs name kw address job extras forms_data notes_data
    where data: "make_request net (base_url api @ ''/v1/contacts/'' @ cid) = JDict kvs"
      and name: "contact_name cid (JDict kvs) = Inr name"
      and f: "f = file_name name"
      and kw: "join_obj '' '' (lookup_default kvs ''keywords'' (JStr [])) = Inr kw"
      and a: "address_entry (JDict kvs) = Inr address"
      and j: "company_entry api net (JDict kvs) = Inr job"
      and x: "extra_entries api (JDict kvs) = Inr extras"
      and fo: "forms_entry api net (forms_order s1 cid) (JDict kvs) = Inr forms_data"
      and no: "notes_entry api net (notes_order s1 cid) (JDict kvs) = Inr notes_data"
      and d: "truthy (lookup_default kvs ''details'' (JStr [])) \<longrightarrow>
                (\<exists>d. lookup_default kvs ''details'' (JStr []) = JStr d)"
      and body: "text1 = document
               ([name,
                 entry_text (lookup_default kvs ''details'' (JStr [])),
                 ''Keywords: '' @ kw,
                 ''Birthday: '' @ py_str (lookup_default kvs ''birthday'' (JStr [])),
                 ''Anniversary: '' @ py_str (lookup_default kvs ''anniversary'' (JStr [])),
                 address, job] @ extras @ [forms_data, notes_data])"
    by (elim exE conjE) (rule that, assumption+)
  from process_contact_written [OF assms(3)] data have ne: "kvs \<noteq> []"
    and nul: "CHR 0x00 \<notin> set f"
    by auto
  from forms_entry_reorder [OF vf fo] obtain fb1 fb2 where
    f1: "forms_data = str_join [nl] fb1"
    and f2: "forms_entry api net (forms_order s2 cid) (JDict kvs) = Inr (str_join [nl] fb2)"
    and fm: "mset fb2 = mset fb1" and fe: "[] \<notin> set fb1" "[] \<notin> set fb2"
    by blast
  from notes_entry_reorder [OF vn no] obtain nb1 nb2 where
    n1: "notes_data = str_join [nl] nb1"
    and n2: "notes_entry api net (notes_order s2 cid) (JDict kvs) = Inr (str_join [nl] nb2)"
    and nm: "mset nb2 = mset nb1" and ne2: "[] \<notin> set nb1" "[] \<notin> set nb2"
    by blast
  from fm have "fb2 = [] \<longleftrightarrow> fb1 = []" by (metis mset_zero_iff)
  with fe have fz: "str_join [nl] fb2 = [] \<longleftrightarrow> str_join [nl] fb1 = []"
    by (simp add: str_join_Nil_iff)
  from nm have "nb2 = [] \<longleftrightarrow> nb1 = []" by (metis mset_zero_iff)
  with ne2 have nz: "str_join [nl] nb2 = [] \<longleftrightarrow> str_join [nl] nb1 = []"
    by (simp add: str_join_Nil_iff)
  from nul f have nul': "CHR 0x00 \<notin> set (file_name name)" by simp
  have second: "process_contact api net s2 cid
           = ([(f,
                document
                  ([name,
                    entry_text (lookup_default kvs ''details'' (JStr [])),
                    ''Keywords: '' @ kw,
                    ''Birthday: '' @ py_str (lookup_default kvs ''birthday'' (JStr [])),
                    ''Anniversary: '' @ py_str (lookup_default kvs ''anniversary'' (JStr [])),
                    address, job] @ extras @ [str_join [nl] fb2, str_join [nl] nb2]))], None)"
    unfolding f by (rule process_contact_document [OF data ne name nul' kw d a j x f2 n2])
  note first = body [unfolded f1 n1]
  note fo' = fo [unfolded f1] and no' = no [unfolded n1]
  from data first second fm nm fz nz name kw a j x fo' f2 no' n2 show ?thesis
    by (intro exI conjI) (assumption | rule refl)+
qed

theorem sections_in_fixed_order_witness:
  "process_contact client net_dee in_order ''1''
     = ([(''Dee.txt'', dee_text [form_7, form_9] [note_3, note_4])], None)
   \<and> process_contact client net_dee reversed ''1''
     = ([(''Dee.txt'', dee_text [form_9, form_7] [note_4, note_3])], None)
   \<and> (\<exists>kvs name details kw bd an address job extras fb1 nb1 fb2 nb2.
           make_request net_dee (base_url client @ ''/v1/contacts/'' @ ''1'') = JDict kvs
           \<and> dee_text [form_7, form_9] [note_3, note_4] = document
                 ([name, details, ''Keywords: '' @ kw, ''Birthday: '' @ bd,
                   ''Anniversary: '' @ an, address, job]
                  @ extras @ [str_join [nl] fb1, str_join [nl] nb1])
           \<and> process_contact client net_dee reversed ''1''
               = ([(''Dee.txt'', document
                         ([name, details, ''Keywords: '' @ kw, ''Birthday: '' @ bd,
                           ''Anniversary: '' @ an, address, job]
                          @ extras @ [str_join [nl] fb2, str_join [nl] nb2]))], None)
           \<and> mset fb2 = mset fb1
           \<and> mset nb2 = mset nb1
           \<and> (str_join [nl] fb2 = [] \<longleftrightarrow> str_join [nl] fb1 = [])
           \<and> (str_join [nl] nb2 = [] \<longleftrightarrow> str_join [nl] nb1 = [])
           \<and> contact_name ''1'' (JDict kvs) = Inr name
           \<and> details = entry_text (lookup_default kvs ''details'' (JStr []))
           \<and> join_obj '' '' (lookup_default kvs ''keywords'' (JStr [])) = Inr kw
           \<and> bd = py_str (lookup_default kvs ''birthday'' (JStr []))
           \<and> an = py_str (lookup_default kvs ''anniversary'' (JStr []))
           \<and> address_entry (JDict kvs) = Inr address
           \<and> company_entry client net_dee (JDict kvs) = Inr job
           \<and> extra_entries client (JDict kvs) = Inr extras
           \<and> forms_entry client net_dee (forms_order in_order ''1'') (JDict kvs)
               = Inr (str_join [nl] fb1)
           \<and> forms_entry client net_dee (forms_order reversed ''1'') (JDict kvs)
               = Inr (str_join [nl] fb2)
           \<and> notes_entry client net_dee (notes_order in_order ''1'') (JDict kvs)
               = Inr (str_join [nl] nb1)
           \<and> notes_entry client net_dee (notes_order reversed ''1'') (JDict kvs)
               = Inr (str_join [nl] nb2))"
proof -
  have first: "process_contact client net_dee in_order ''1''
     = ([(''Dee.txt'', dee_text [form_7, form_9] [note_3, note_4])], None)"
    by code_simp
  have second: "process_contact client net_dee reversed ''1''
     = ([(''Dee.txt'', dee_text [form_9, form_7] [note_4, note_3])], None)"
    by code_simp
  note general = sections_in_fixed_order [OF valid_in_order valid_reversed first]
  from first second general show ?thesis by (intro conjI)
qed

end
